theory Spec2Isabelle
  imports Complex_Main
begin

section \<open>Convective adjustment of konrad (convection.py)\<close>

text \<open>
  The module works on numpy arrays of double precision floats. They are modelled as
  lists of real numbers: rounding, infinities and NaN are outside the model. Where the
  solver or the diagnostics would leave the real numbers (a division by zero, which numpy
  answers with an infinity or NaN and a warning), the model says so with the outcome
  \<open>NonFinite\<close> instead of following HOL's convention \<open>x / 0 = 0\<close>; gravity and the
  air's density are taken to be non-zero, as the module takes them.
  Arrays of one column share the grid: the theorems state the shapes they need.
\<close>

subsection \<open>Errors\<close>

datatype error =
    ValueError string
  | NameError string
  | TypeError string
  | UnboundLocalError string
  | IndexError
  | NonFinite

subsection \<open>The numpy operations the module uses\<close>

text \<open>\<open>np.diff(x)\<close>: the differences of neighbours, \<open>x[i+1] - x[i]\<close>.\<close>

fun np_diff :: "real list \<Rightarrow> real list" where
  "np_diff (x # y # xs) = (y - x) # np_diff (y # xs)"
| "np_diff xs = []"

text \<open>\<open>np.cumsum(x)\<close>: the running sums, the accumulator written out.\<close>

fun cumsum_from :: "real \<Rightarrow> real list \<Rightarrow> real list" where
  "cumsum_from a [] = []"
| "cumsum_from a (x # xs) = (a + x) # cumsum_from (a + x) xs"

definition np_cumsum :: "real list \<Rightarrow> real list" where
  "np_cumsum xs = cumsum_from 0 xs"

text \<open>\<open>np.sum\<close>, \<open>np.any\<close>, \<open>np.where\<close> on a boolean array (the indices that hold
  True, ascending), \<open>np.max\<close> and \<open>np.min\<close> (of a non-empty array), and \<open>np.argmax\<close>
  on a boolean array (the first index that holds True, 0 when none does).\<close>

definition np_sum :: "real list \<Rightarrow> real" where
  "np_sum xs = sum_list xs"

definition np_any :: "bool list \<Rightarrow> bool" where
  "np_any bs = list_ex (\<lambda>b. b) bs"

definition np_where :: "bool list \<Rightarrow> nat list" where
  "np_where bs = filter (\<lambda>i. bs ! i) [0..<length bs]"

definition np_max :: "nat list \<Rightarrow> nat" where
  "np_max xs = fold max (tl xs) (hd xs)"

definition np_min :: "real list \<Rightarrow> real" where
  "np_min xs = fold min (tl xs) (hd xs)"

fun np_argmax :: "bool list \<Rightarrow> nat" where
  "np_argmax [] = 0"
| "np_argmax (b # bs) = (if b then 0 else if np_any bs then Suc (np_argmax bs) else 0)"

subsection \<open>The state of the column\<close>

text \<open>
  The atmosphere is indexed by the names \<open>plev\<close>, \<open>phlev\<close>, \<open>T\<close>, \<open>H2O\<close> and \<open>z\<close>;
  the time-dependent fields are kept as the one row the module reads and writes
  (\<open>atmosphere['T'][-1]\<close>). The surface has a temperature and a heat capacity, and
  \<open>fixed_temperature\<close> says whether it is a \<open>SurfaceFixedTemperature\<close>.
\<close>

record atmosphere =
  plev :: "real list"
  phlev :: "real list"
  T_atm :: "real list"
  H2O :: "real list"
  z_atm :: "real list"

record surface =
  temperature :: real
  heat_capacity :: real
  fixed_temperature :: bool

text \<open>
  What the module takes from outside itself and the model takes as parameters: the
  atmosphere's methods \<open>update_height\<close> and \<open>get_heat_capacity\<close>, typhon's
  \<open>vmr2mixing_ratio\<close> and \<open>density\<close>, numpy's \<open>gradient\<close>, scipy's \<open>interp1d\<close> with
  extrapolation (abscissae, ordinates, new abscissae), and the constants \<open>g\<close>, \<open>Lv\<close> and
  \<open>earth_standard_gravity\<close> of konrad.constants. The humidity model is an argument of its
  own, as in the source: its method \<open>adjust_humidity\<close> as a function on atmospheres.
\<close>

record externals =
  update_height :: "atmosphere \<Rightarrow> atmosphere"
  get_heat_capacity :: "atmosphere \<Rightarrow> real list"
  vmr2mixing_ratio :: "real \<Rightarrow> real"
  density :: "real \<Rightarrow> real \<Rightarrow> real"
  gradient :: "real list \<Rightarrow> real list"
  interp1d_extrapolate :: "real list \<Rightarrow> real list \<Rightarrow> real list \<Rightarrow> real list"
  const_g :: real
  const_Lv :: real
  earth_standard_gravity :: real

subsection \<open>Energy differences\<close>

definition energy_difference_dry ::
  "real \<Rightarrow> real list \<Rightarrow> real list \<Rightarrow> real \<Rightarrow> real \<Rightarrow> real list \<Rightarrow> real list \<Rightarrow> real \<Rightarrow> real" where
  "energy_difference_dry g T_2 T_1 sst_2 sst_1 phlev' Cp eff_Cp_s =
     (let dT = map2 (\<lambda>a b. a - b) T_2 T_1;
          dT_s = sst_2 - sst_1
      in - np_sum (map2 (\<lambda>c d. c * d)
                     (map2 (\<lambda>c d. c * d) (map (\<lambda>c. c / g) Cp) dT) (np_diff phlev'))
         + eff_Cp_s * dT_s)"

definition latent_heat_difference :: "real \<Rightarrow> real list \<Rightarrow> real list \<Rightarrow> real" where
  "latent_heat_difference Lv h2o_2 h2o_1 =
     np_sum (map (\<lambda>d. d * Lv) (map2 (\<lambda>a b. a - b) h2o_2 h2o_1))"

subsection \<open>The profile of the hard adjustment\<close>

text \<open>The lapse-rate integral \<open>surfaceT - np.cumsum(dp_lapse * lp)\<close> of both
  \<open>convective_profile\<close> methods, with \<open>dp_lapse = np.hstack(([p[0] - phlev[0]], np.diff(p)))\<close>.\<close>

definition dp_lapse :: "real list \<Rightarrow> real list \<Rightarrow> real list" where
  "dp_lapse p phlev' = (p ! 0 - phlev' ! 0) # np_diff p"

definition lapse_integral :: "real list \<Rightarrow> real list \<Rightarrow> real \<Rightarrow> real list \<Rightarrow> real list" where
  "lapse_integral p phlev' surfaceT' lp =
     map (\<lambda>c. surfaceT' - c) (np_cumsum (map2 (\<lambda>d l. d * l) (dp_lapse p phlev') lp))"

definition convective_profile ::
  "real list \<Rightarrow> real list \<Rightarrow> real list \<Rightarrow> real \<Rightarrow> real list \<Rightarrow> real list" where
  "convective_profile T_rad p phlev' surfaceT' lp =
     (let T_con' = lapse_integral p phlev' surfaceT' lp;
          warmer = map2 (\<lambda>c r. c > r) T_con' T_rad
      in if np_any warmer
         then (let contop = np_max (np_where warmer)
               in take (contop + 1) T_con' @ drop (contop + 1) T_rad)
         else T_rad)"

subsection \<open>Lapse rate, temporary atmosphere and water vapour\<close>

text \<open>\<open>phlev[:-1]\<close> is \<open>butlast\<close>; the arithmetic is elementwise.\<close>

definition pressure_lapse_rate ::
  "externals \<Rightarrow> real list \<Rightarrow> real list \<Rightarrow> real list \<Rightarrow> real list \<Rightarrow> real list" where
  "pressure_lapse_rate ext p phlev' T lapse =
     (let density_p = map2 (density ext) p T;
          density' = interp1d_extrapolate ext p density_p (butlast phlev');
          g = earth_standard_gravity ext
      in map2 (\<lambda>l d. - l / (g * d)) lapse density')"

text \<open>\<open>update_temporary_atmosphere\<close> writes the profile into the (copied) atmosphere, lets
  the humidity model adjust it and updates the height; the model returns the atmosphere.\<close>

definition update_temporary_atmosphere ::
  "externals \<Rightarrow> atmosphere \<Rightarrow> real list \<Rightarrow> (atmosphere \<Rightarrow> atmosphere) \<Rightarrow> atmosphere" where
  "update_temporary_atmosphere ext atmosphere' T humidity =
     update_height ext (humidity (atmosphere'\<lparr>T_atm := T\<rparr>))"

definition water_vapour_profile :: "externals \<Rightarrow> atmosphere \<Rightarrow> real list" where
  "water_vapour_profile ext atmosphere' =
     (let h2o = map (vmr2mixing_ratio ext) (H2O atmosphere');
          rho = map2 (density ext) (plev atmosphere') (T_atm atmosphere');
          dz = gradient ext (z_atm atmosphere')
      in map2 (\<lambda>h x. h * x) h2o (map2 (\<lambda>r d. r * d) rho dz))"

subsection \<open>The energy check of a candidate surface temperature\<close>

definition create_and_check_profile ::
  "externals \<Rightarrow> atmosphere \<Rightarrow> atmosphere \<Rightarrow> (atmosphere \<Rightarrow> atmosphere) \<Rightarrow> surface
     \<Rightarrow> real \<Rightarrow> real list \<Rightarrow> real list \<times> real" where
  "create_and_check_profile ext atmosphere' atmosphere_old humidity surface' surfaceT' lp =
     (let p = plev atmosphere';
          phlev' = phlev atmosphere';
          T_rad = T_atm atmosphere';
          T_con' = convective_profile T_rad p phlev' surfaceT' lp;
          eff_Cp_s = heat_capacity surface';
          atmosphere_con = update_temporary_atmosphere ext atmosphere' T_con' humidity;
          h2o_old = water_vapour_profile ext atmosphere_old;
          h2o_new = water_vapour_profile ext atmosphere_con;
          diff = energy_difference_dry (const_g ext) T_con' T_rad surfaceT' (temperature surface')
                   phlev' (get_heat_capacity ext atmosphere') eff_Cp_s;
          wet_diff = latent_heat_difference (const_Lv ext) h2o_new h2o_old
      in (T_con', diff + wet_diff))"

subsection \<open>The search for the energy-conserving surface temperature\<close>

text \<open>
  The variables of the loop in \<open>convective_adjustment\<close>. \<open>surfaceT\<close> is bound by the first
  iteration only, so it is optional here.
\<close>

record solver =
  surfaceTpos :: real
  diff_pos :: real
  surfaceTneg :: real
  diff_neg :: real
  T_con :: "real list"
  surfaceT :: "real option"
  counter :: nat

text \<open>The loop's condition, \<open>diff_pos >= near_zero and np.abs(diff_neg) >= near_zero\<close>.\<close>

definition iterating :: "real \<Rightarrow> solver \<Rightarrow> bool" where
  "iterating near_zero s \<longleftrightarrow> diff_pos s \<ge> near_zero \<and> \<bar>diff_neg s\<bar> \<ge> near_zero"

text \<open>The surface temperature an iteration proposes.\<close>

definition proposal :: "solver \<Rightarrow> real" where
  "proposal s = surfaceTneg s + (surfaceTpos s - surfaceTneg s) * (- diff_neg s)
                  / (- diff_neg s + diff_pos s)"

text \<open>One pass through the loop's body, up to and including \<open>counter += 1\<close>;
  \<open>check\<close> is \<open>create_and_check_profile\<close> at the call's arguments.\<close>

definition iteration :: "(real \<Rightarrow> real list \<times> real) \<Rightarrow> solver \<Rightarrow> solver" where
  "iteration check s =
     (let surfaceT' = proposal s;
          (T_con', diff) = check surfaceT';
          s' = (if diff > 0
                then s\<lparr>diff_pos := diff, surfaceTpos := surfaceT'\<rparr>
                else s\<lparr>diff_neg := diff, surfaceTneg := surfaceT'\<rparr>)
      in s'\<lparr>T_con := T_con', surfaceT := Some surfaceT', counter := counter s + 1\<rparr>)"

text \<open>The loop. It ends with the solver's variables when the condition fails and with
  the \<open>ValueError\<close> when the counter reaches 100 at the end of a pass. Where the proposal
  divides by zero, numpy answers with an infinity or \<open>nan\<close> and a warning and the source
  goes on with it, out of the real numbers: the model ends there with \<open>NonFinite\<close>, so
  that a profile or a \<open>ValueError\<close> of the model is one the source computes on real
  numbers. The theorems on the search state the condition under which the divisor is
  positive and show that \<open>NonFinite\<close> does not arise under it.\<close>

partial_function (option) solve ::
  "(real \<Rightarrow> real list \<times> real) \<Rightarrow> real \<Rightarrow> solver \<Rightarrow> (error + solver) option" where
  "solve check near_zero s =
     (if iterating near_zero s
      then (if - diff_neg s + diff_pos s = 0 then Some (Inl NonFinite)
            else if counter (iteration check s) = 100
            then Some (Inl (ValueError ''No energy conserving convective profile can be found''))
            else solve check near_zero (iteration check s))
      else Some (Inr s))"

definition convective_adjustment ::
  "externals \<Rightarrow> atmosphere \<Rightarrow> atmosphere \<Rightarrow> (atmosphere \<Rightarrow> atmosphere) \<Rightarrow> real list
     \<Rightarrow> surface \<Rightarrow> real \<Rightarrow> (error + real list \<times> real) option" where
  "convective_adjustment ext atmosphere' atmosphere_old humidity lapse surface' timestep =
     (let p = plev atmosphere';
          phlev' = phlev atmosphere';
          T_rad = T_atm atmosphere';
          lp = pressure_lapse_rate ext p phlev' T_rad lapse
      in if fixed_temperature surface'
         then Some (Inr (convective_profile T_rad p phlev' (temperature surface') lp,
                         temperature surface'))
         else
          (let near_zero = heat_capacity surface' / 10 ^ 13;
               surfaceTpos' = temperature surface';
               (T_con', diff_pos') = create_and_check_profile ext atmosphere' atmosphere_old
                                       humidity surface' surfaceTpos' lp
           in if diff_pos' < near_zero then Some (Inr (T_con', temperature surface'))
              else
               (let surfaceTneg' = np_min T_rad;
                    eff_Cp_s = heat_capacity surface';
                    diff_neg' = eff_Cp_s * (surfaceTneg' - temperature surface')
                in if \<bar>diff_neg'\<bar> < near_zero then Some (Inr (T_con', surfaceTneg'))
                   else
                    (case solve (\<lambda>surfaceT'. create_and_check_profile ext atmosphere'
                                    atmosphere_old humidity surface' surfaceT' lp)
                            near_zero
                            \<lparr>surfaceTpos = surfaceTpos', diff_pos = diff_pos',
                             surfaceTneg = surfaceTneg', diff_neg = diff_neg',
                             T_con = T_con', surfaceT = None, counter = 0\<rparr> of
                       None \<Rightarrow> None
                     | Some (Inl e) \<Rightarrow> Some (Inl e)
                     | Some (Inr s) \<Rightarrow>
                         (case surfaceT s of
                            None \<Rightarrow> Some (Inl (UnboundLocalError ''surfaceT''))
                          | Some surfaceT' \<Rightarrow> Some (Inr (T_con s, surfaceT')))))))"

text \<open>Names for the parts of a call that the theorems speak about: the pressure lapse
  rate, the tolerance, the check as a function of the surface temperature, and the
  solver's variables when the loop is entered.\<close>

definition lapse_of :: "externals \<Rightarrow> atmosphere \<Rightarrow> real list \<Rightarrow> real list" where
  "lapse_of ext atmosphere' lapse =
     pressure_lapse_rate ext (plev atmosphere') (phlev atmosphere') (T_atm atmosphere') lapse"

definition near_zero_of :: "surface \<Rightarrow> real" where
  "near_zero_of surface' = heat_capacity surface' / 10 ^ 13"

definition check_of ::
  "externals \<Rightarrow> atmosphere \<Rightarrow> atmosphere \<Rightarrow> (atmosphere \<Rightarrow> atmosphere) \<Rightarrow> real list
     \<Rightarrow> surface \<Rightarrow> real \<Rightarrow> real list \<times> real" where
  "check_of ext atmosphere' atmosphere_old humidity lapse surface' surfaceT' =
     create_and_check_profile ext atmosphere' atmosphere_old humidity surface' surfaceT'
       (lapse_of ext atmosphere' lapse)"

definition loop_entry ::
  "externals \<Rightarrow> atmosphere \<Rightarrow> atmosphere \<Rightarrow> (atmosphere \<Rightarrow> atmosphere) \<Rightarrow> real list
     \<Rightarrow> surface \<Rightarrow> solver" where
  "loop_entry ext atmosphere' atmosphere_old humidity lapse surface' =
     \<lparr>surfaceTpos = temperature surface',
      diff_pos = snd (check_of ext atmosphere' atmosphere_old humidity lapse surface'
                        (temperature surface')),
      surfaceTneg = np_min (T_atm atmosphere'),
      diff_neg = heat_capacity surface' * (np_min (T_atm atmosphere') - temperature surface'),
      T_con = fst (check_of ext atmosphere' atmosphere_old humidity lapse surface'
                     (temperature surface')),
      surfaceT = None, counter = 0\<rparr>"

text \<open>The solver's variables after \<open>k\<close> further passes through the loop, while it keeps
  running: \<open>None\<close> when the loop has ended before.\<close>

fun state_after ::
  "(real \<Rightarrow> real list \<times> real) \<Rightarrow> real \<Rightarrow> nat \<Rightarrow> solver \<Rightarrow> solver option" where
  "state_after check near_zero 0 s = Some s"
| "state_after check near_zero (Suc k) s =
     (if iterating near_zero s \<and> - diff_neg s + diff_pos s \<noteq> 0
         \<and> counter (iteration check s) \<noteq> 100
      then state_after check near_zero k (iteration check s)
      else None)"

text \<open>After a pass the solver holds the proposal it checked, the profile of that check,
  and the check's difference as the bound of its sign; the other bound is one the
  loop's condition let pass.\<close>

definition holds_last_check :: "(real \<Rightarrow> real list \<times> real) \<Rightarrow> real \<Rightarrow> solver \<Rightarrow> bool" where
  "holds_last_check check near_zero s \<longleftrightarrow>
     (case surfaceT s of
        None \<Rightarrow> False
      | Some t \<Rightarrow>
          T_con s = fst (check t)
          \<and> (if 0 < snd (check t)
              then diff_pos s = snd (check t) \<and> near_zero \<le> \<bar>diff_neg s\<bar>
              else diff_neg s = snd (check t) \<and> near_zero \<le> diff_pos s))"

text \<open>The bracket of the search: the lower bound is not above the upper one, and the
  energy differences of the bounds have the signs of their names.\<close>

definition bracket :: "solver \<Rightarrow> bool" where
  "bracket s \<longleftrightarrow> surfaceTneg s \<le> surfaceTpos s \<and> diff_neg s \<le> 0 \<and> 0 \<le> diff_pos s"

subsection \<open>Columns of one level, for the examples\<close>

text \<open>
  The examples use a column of one level between the half-levels 1000 and 800, a
  critical lapse rate of zero, and the simplest externals: unit density, a unit layer
  thickness, the mixing ratio equal to the volume mixing ratio, a heat capacity of the
  air of 1 with \<open>g = 1\<close>, \<open>Lv = 2500000\<close>, and a height update that changes nothing. So
  the lapse-rate integral of a surface temperature \<open>t\<close> is \<open>[t]\<close>, the dry energy
  difference of a profile \<open>[t']\<close> is \<open>200 * (t' - T) + heat_capacity * (t - temperature)\<close>,
  and the water vapour content of a layer is its \<open>H2O\<close>.
\<close>

definition column_externals :: externals where
  "column_externals =
     \<lparr>update_height = (\<lambda>a. a),
      get_heat_capacity = (\<lambda>a. [1]),
      vmr2mixing_ratio = (\<lambda>x. x),
      density = (\<lambda>p T. 1),
      gradient = (\<lambda>z. [1]),
      interp1d_extrapolate = (\<lambda>x y x_new. [1]),
      const_g = 1,
      const_Lv = 2500000,
      earth_standard_gravity = 1\<rparr>"

definition column :: "real \<Rightarrow> real \<Rightarrow> atmosphere" where
  "column T h2o = \<lparr>plev = [900], phlev = [1000, 800], T_atm = [T], H2O = [h2o], z_atm = [0]\<rparr>"

definition slab :: "real \<Rightarrow> surface" where
  "slab T_s = \<lparr>temperature = T_s, heat_capacity = 200, fixed_temperature = False\<rparr>"

text \<open>A humidity model that leaves the water vapour as it is.\<close>

definition fixed_vmr :: "atmosphere \<Rightarrow> atmosphere" where
  "fixed_vmr a = a"

text \<open>A humidity model for the column \<open>column 299 0\<close> under \<open>slab 300\<close>, where the dry
  energy difference of a candidate profile \<open>[t]\<close> is \<open>400 * t - 119800\<close>: its water vapour
  makes the energy difference of the candidate \<open>stepping_difference t\<close>, which is
  \<open>200 / (128 * t - 38273)\<close> when \<open>t\<close> is above 299.22, and zero when it is not. The
  search then steps down from 300 by 1/128 a pass.\<close>

definition stepping_difference :: "real \<Rightarrow> real" where
  "stepping_difference t = (if t \<le> 29922 / 100 then 0 else 200 / (128 * t - 38273))"

definition stepping_vmr :: "atmosphere \<Rightarrow> atmosphere" where
  "stepping_vmr a =
     a\<lparr>H2O := map (\<lambda>t. (stepping_difference t - (400 * t - 119800)) / 2500000) (T_atm a)\<rparr>"

text \<open>The solver's variables of that search after \<open>k\<close> passes, for \<open>k\<close> below 100.\<close>

definition stepping_pass :: "nat \<Rightarrow> solver" where
  "stepping_pass k =
     \<lparr>surfaceTpos = 300 - real k / 128, diff_pos = 200 / (127 - real k), surfaceTneg = 299,
      diff_neg = - 200, T_con = [300 - real k / 128],
      surfaceT = (if k = 0 then None else Some (300 - real k / 128)), counter = k\<rparr>"

subsection \<open>The diagnostics of the convective top\<close>

text \<open>A diagnostic is a number or numpy's \<open>nan\<close>, the module's value for "undefined".\<close>

datatype number = Num real | NaN

text \<open>
  Modelled from the spec: \<open>create_variable\<close> of konrad's \<open>Component\<close>, whose source is not
  among the files. The spec says the diagnostics are written as named simulation
  variables after each call, so the component is a map from names to arrays and
  \<open>create_variable\<close> stores an array under a name.
\<close>

type_synonym component = "string \<rightharpoonup> number list"

definition create_variable :: "string \<Rightarrow> number list \<Rightarrow> component \<Rightarrow> component" where
  "create_variable name value self = self(name \<mapsto> value)"

text \<open>Reading \<open>xs[i]\<close>: the indices from \<open>-len(xs)\<close> to \<open>-1\<close> stand for the positions
  \<open>len(xs) + i\<close>, and an index beyond either end raises an \<open>IndexError\<close>.\<close>

definition py_index :: "'a list \<Rightarrow> int \<Rightarrow> error + 'a" where
  "py_index xs i =
     (if 0 \<le> i \<and> i < int (length xs) then Inr (xs ! nat i)
      else if i < 0 \<and> - int (length xs) \<le> i then Inr (xs ! nat (int (length xs) + i))
      else Inl IndexError)"

text \<open>
  scipy's \<open>interp1d(x, y)(x_new)\<close> for two points, linear, with its defaults: the points
  are sorted by abscissa, a new abscissa outside their range raises a \<open>ValueError\<close>, and
  inside it the value is read off the line through the two points. Two equal abscissae
  give a division by zero.
\<close>

definition interp1d :: "real \<times> real \<Rightarrow> real \<times> real \<Rightarrow> real \<Rightarrow> error + real" where
  "interp1d x y x_new =
     (let (x_lo, y_lo, x_hi, y_hi) =
            (if fst x \<le> snd x then (fst x, fst y, snd x, snd y)
             else (snd x, snd y, fst x, fst y))
      in if x_new < x_lo
         then Inl (ValueError ''A value in x_new is below the interpolation range.'')
         else if x_hi < x_new
         then Inl (ValueError ''A value in x_new is above the interpolation range.'')
         else if x_hi = x_lo then Inl NonFinite
         else Inr (y_lo + (y_hi - y_lo) / (x_hi - x_lo) * (x_new - x_lo)))"

text \<open>The two indices \<open>interp_variable\<close> computes; \<open>convective_heating[positive_i:]\<close> is
  \<open>drop\<close>.\<close>

definition positive_i :: "real list \<Rightarrow> real \<Rightarrow> nat" where
  "positive_i convective_heating lim' = np_argmax (map (\<lambda>h. h > lim') convective_heating)"

definition contop_index :: "real list \<Rightarrow> real \<Rightarrow> nat" where
  "contop_index convective_heating lim' =
     np_argmax (map (\<lambda>h. h < lim')
                  (drop (positive_i convective_heating lim') convective_heating))
       + positive_i convective_heating lim'"

text \<open>\<open>np.argmax\<close> raises on an empty array.\<close>

definition interp_variable :: "real list \<Rightarrow> real list \<Rightarrow> real \<Rightarrow> error + real" where
  "interp_variable variable convective_heating lim' =
     (if convective_heating = []
      then Inl (ValueError ''attempt to get argmax of an empty sequence'')
      else
       (let i = int (contop_index convective_heating lim')
        in case (py_index convective_heating (i - 1), py_index convective_heating i,
                 py_index variable (i - 1), py_index variable i) of
             (Inr h_0, Inr h_1, Inr v_0, Inr v_1) \<Rightarrow> interp1d (h_0, h_1) (v_0, v_1) lim'
           | _ \<Rightarrow> Inl IndexError))"

text \<open>The loop over the three names at the end of \<open>update_convective_top\<close>.\<close>

definition store_convective_top :: "number \<Rightarrow> number \<Rightarrow> number \<Rightarrow> component \<Rightarrow> component" where
  "store_convective_top contop_p contop_T contop_i self =
     create_variable ''convective_top_index'' [contop_i]
       (create_variable ''convective_top_temperature'' [contop_T]
          (create_variable ''convective_top_plev'' [contop_p] self))"

text \<open>\<open>update_convective_top\<close> returns nothing; the model returns the exception, if one is
  raised, and the component as the call leaves it. A timestep of zero makes the heating
  rates infinite or \<open>nan\<close>.\<close>

definition update_convective_top ::
  "component \<Rightarrow> real list \<Rightarrow> real list \<Rightarrow> real list \<Rightarrow> real \<Rightarrow> real
     \<Rightarrow> error option \<times> component" where
  "update_convective_top self T_rad T_con' p timestep lim' =
     (if timestep = 0 then (Some NonFinite, self)
      else
       (let convective_heating = map2 (\<lambda>c r. (c - r) / timestep) T_con' T_rad;
            self' = create_variable ''convective_heating_rate'' (map Num convective_heating) self
        in if np_any (map (\<lambda>h. h > lim') convective_heating)
           then
            (case interp_variable p convective_heating lim' of
               Inl e \<Rightarrow> (Some e, self')
             | Inr contop_p \<Rightarrow>
                (case interp_variable T_con' convective_heating lim' of
                   Inl e \<Rightarrow> (Some e, self')
                 | Inr contop_T \<Rightarrow>
                    (case interp_variable (map real [0..<length p]) convective_heating lim' of
                       Inl e \<Rightarrow> (Some e, self')
                     | Inr contop_i \<Rightarrow>
                        (None, store_convective_top (Num contop_p) (Num contop_T)
                                 (Num contop_i) self'))))
           else (None, store_convective_top NaN NaN NaN self')))"

subsection \<open>The entry point\<close>

text \<open>
  \<open>stabilize\<close> calls \<open>self.convective_adjustment(..., T_old=T_old, timestep=timestep)\<close>.
  Python evaluates the arguments first; the name \<open>T_old\<close> is looked up among the
  function's parameters and the locals assigned so far, then among the module's names
  (no builtin is called \<open>T_old\<close>). A name that is not bound raises a \<open>NameError\<close>; a
  keyword that is not a parameter of the callee raises a \<open>TypeError\<close>.
\<close>

definition stabilize_locals :: "string list" where
  "stabilize_locals =
     [''self'', ''atmosphere'', ''atmosphere_old'', ''humidity'', ''lapse'', ''surface'',
      ''timestep'', ''T_rad'', ''p'']"

definition module_names :: "string list" where
  "module_names =
     [''abc'', ''np'', ''typhon'', ''vmr2mixing_ratio'', ''interp1d'', ''constants'',
      ''Component'', ''SurfaceFixedTemperature'', ''__all__'', ''energy_difference_dry'',
      ''latent_heat_difference'', ''interp_variable'', ''pressure_lapse_rate'',
      ''update_temporary_atmosphere'', ''water_vapour_profile'', ''Convection'',
      ''NonConvective'', ''HardAdjustment'', ''RelaxedAdjustment'', ''RelaxedTauT'']"

definition convective_adjustment_parameters :: "string list" where
  "convective_adjustment_parameters =
     [''self'', ''atmosphere'', ''atmosphere_old'', ''humidity'', ''lapse'', ''surface'',
      ''timestep'']"

text \<open>\<open>stabilize\<close> mutates the atmosphere, the surface and the component; the model
  returns them.\<close>

definition stabilize ::
  "externals \<Rightarrow> component \<Rightarrow> atmosphere \<Rightarrow> atmosphere \<Rightarrow> (atmosphere \<Rightarrow> atmosphere)
     \<Rightarrow> real list \<Rightarrow> surface \<Rightarrow> real
     \<Rightarrow> (error + atmosphere \<times> surface \<times> component) option" where
  "stabilize ext self atmosphere' atmosphere_old humidity lapse surface' timestep =
     (let T_rad = T_atm atmosphere';
          p = plev atmosphere'
      in if ''T_old'' \<notin> set (stabilize_locals @ module_names)
         then Some (Inl (NameError ''T_old''))
         else if ''T_old'' \<notin> set convective_adjustment_parameters
         then Some (Inl (TypeError ''T_old''))
         else
          (case convective_adjustment ext atmosphere' atmosphere_old humidity lapse surface'
                  timestep of
             None \<Rightarrow> None
           | Some (Inl e) \<Rightarrow> Some (Inl e)
           | Some (Inr (T_new, T_s_new)) \<Rightarrow>
               (case update_convective_top self T_rad T_new p timestep (2 / 10) of
                  (Some e, self') \<Rightarrow> Some (Inl e)
                | (None, self') \<Rightarrow>
                    Some (Inr (atmosphere'\<lparr>T_atm := T_new\<rparr>,
                               surface'\<lparr>temperature := T_s_new\<rparr>, self')))))"

subsection \<open>The relaxed adjustment\<close>

text \<open>\<open>convective_tau\<close> is the attribute of the instance: an array, or \<open>None\<close>.\<close>

definition get_convective_tau :: "real list option \<Rightarrow> real list \<Rightarrow> real list" where
  "get_convective_tau convective_tau p =
     (case convective_tau of
        Some tau \<Rightarrow> tau
      | None \<Rightarrow> (let tau0 = 1 / 24 in map (\<lambda>x. tau0 * exp (p ! 0 / x)) p))"

definition relaxed_convective_profile ::
  "real list option \<Rightarrow> real list \<Rightarrow> real list \<Rightarrow> real list \<Rightarrow> real \<Rightarrow> real list \<Rightarrow> real
     \<Rightarrow> real list" where
  "relaxed_convective_profile convective_tau T_rad p phlev' surfaceT' lp timestep =
     (let tau = get_convective_tau convective_tau p;
          tf = map (\<lambda>t. 1 - exp (- timestep / t)) tau
      in map2 (\<lambda>a b. a + b)
           (map2 (\<lambda>r f. r * (1 - f)) T_rad tf)
           (map2 (\<lambda>f c. f * c) tf (lapse_integral p phlev' surfaceT' lp)))"

subsection \<open>The energy difference as the specification words it\<close>

text \<open>The specification's energy evaluator takes the reference of both terms from the
  radiative state: the dry term against its temperatures, the latent term against its
  water vapour.\<close>

definition energy_difference_from_radiative_state ::
  "externals \<Rightarrow> atmosphere \<Rightarrow> (atmosphere \<Rightarrow> atmosphere) \<Rightarrow> surface \<Rightarrow> real \<Rightarrow> real list
     \<Rightarrow> real" where
  "energy_difference_from_radiative_state ext atmosphere' humidity surface' surfaceT' lp =
     (let T_candidate = convective_profile (T_atm atmosphere') (plev atmosphere')
                          (phlev atmosphere') surfaceT' lp;
          candidate = update_temporary_atmosphere ext atmosphere' T_candidate humidity
      in energy_difference_dry (const_g ext) T_candidate (T_atm atmosphere') surfaceT'
           (temperature surface') (phlev atmosphere') (get_heat_capacity ext atmosphere')
           (heat_capacity surface')
         + latent_heat_difference (const_Lv ext) (water_vapour_profile ext candidate)
             (water_vapour_profile ext atmosphere'))"

subsection \<open>The profile of the hard adjustment: proofs\<close>

lemma length_np_diff: "length (np_diff xs) = length xs - 1"
  by (induction xs rule: np_diff.induct) simp_all

lemma length_cumsum_from: "length (cumsum_from a xs) = length xs"
  by (induction xs arbitrary: a) simp_all

lemma length_lapse_integral:
  "p \<noteq> [] \<Longrightarrow> length lp = length p \<Longrightarrow> length (lapse_integral p ph s lp) = length p"
  by (cases p) (simp_all add: lapse_integral_def np_cumsum_def dp_lapse_def
      length_cumsum_from length_np_diff)

lemma np_any_iff: "np_any bs \<longleftrightarrow> (\<exists>i<length bs. bs ! i)"
  by (simp add: np_any_def list_ex_length)

lemma np_max_Max: "xs \<noteq> [] \<Longrightarrow> np_max xs = Max (set xs)"
  by (cases xs) (simp_all add: np_max_def Max.set_eq_fold [symmetric])

lemma set_np_where: "set (np_where bs) = {i. i < length bs \<and> bs ! i}"
  by (auto simp: np_where_def)

lemma np_max_where_highest:
  assumes "k < length bs" "bs ! k" "\<forall>j<length bs. k < j \<longrightarrow> \<not> bs ! j"
  shows "np_max (np_where bs) = k"
proof -
  have mem: "k \<in> set (np_where bs)"
    using assms(1,2) by (simp add: set_np_where)
  then have ne: "np_where bs \<noteq> []" by auto
  have "Max (set (np_where bs)) = k"
  proof (rule Max_eqI)
    show "finite (set (np_where bs))" by simp
    show "k \<in> set (np_where bs)" by (rule mem)
    fix y assume "y \<in> set (np_where bs)"
    then have "y < length bs" "bs ! y" by (simp_all add: set_np_where)
    with assms(3) show "y \<le> k" by (meson not_le_imp_less)
  qed
  with ne show ?thesis by (simp add: np_max_Max)
qed

lemma warmer_nth:
  "length c = length r \<Longrightarrow> i < length r \<Longrightarrow> map2 (\<lambda>c r. c > r) c r ! i = (c ! i > r ! i)"
  by simp

text \<open>
  C3. For arrays of one grid, \<open>convective_profile\<close> returns the radiative profile as it
  is when the lapse-rate integral \<open>surfaceT - cumsum(dp * lp)\<close> exceeds it at no level;
  otherwise, with \<open>k\<close> the highest level where the integral exceeds the radiative
  profile, it returns the integral at the levels up to and including \<open>k\<close> and the
  radiative values strictly above \<open>k\<close>.
\<close>

theorem convective_profile_clips_at_top:
  assumes "p \<noteq> []" "length lp = length p" "length T_rad = length p"
  shows "((\<forall>i<length p. \<not> lapse_integral p ph sT lp ! i > T_rad ! i) \<longrightarrow>
            convective_profile T_rad p ph sT lp = T_rad)
       \<and> (\<forall>k<length p.
            lapse_integral p ph sT lp ! k > T_rad ! k
            \<and> (\<forall>j<length p. k < j \<longrightarrow> \<not> lapse_integral p ph sT lp ! j > T_rad ! j) \<longrightarrow>
            length (convective_profile T_rad p ph sT lp) = length p
            \<and> (\<forall>i<length p. convective_profile T_rad p ph sT lp ! i =
                  (if i \<le> k then lapse_integral p ph sT lp ! i else T_rad ! i)))"
proof -
  define c where "c = lapse_integral p ph sT lp"
  define w where "w = map2 (\<lambda>c r. c > r) c T_rad"
  have lc: "length c = length p"
    unfolding c_def using assms(1,2) by (rule length_lapse_integral)
  have lw: "length w = length p"
    by (simp add: w_def lc assms(3))
  have wn: "w ! i = (c ! i > T_rad ! i)" if "i < length p" for i
    using that by (simp add: w_def lc assms(3))
  have cp: "convective_profile T_rad p ph sT lp =
      (if np_any w then take (np_max (np_where w) + 1) c @ drop (np_max (np_where w) + 1) T_rad
       else T_rad)"
    by (simp add: convective_profile_def c_def w_def Let_def)
  have part1: "convective_profile T_rad p ph sT lp = T_rad"
    if "\<forall>i<length p. \<not> c ! i > T_rad ! i"
  proof -
    have "\<not> np_any w" using that by (auto simp: np_any_iff lw wn)
    then show ?thesis by (simp add: cp)
  qed
  have part2: "length (convective_profile T_rad p ph sT lp) = length p
       \<and> (\<forall>i<length p. convective_profile T_rad p ph sT lp ! i =
                  (if i \<le> k then c ! i else T_rad ! i))"
    if k: "k < length p" and hot: "c ! k > T_rad ! k"
      and top: "\<forall>j<length p. k < j \<longrightarrow> \<not> c ! j > T_rad ! j" for k
  proof -
    have any: "np_any w" using k hot by (auto simp: np_any_iff lw wn)
    have "np_max (np_where w) = k"
    proof (rule np_max_where_highest)
      show "k < length w" using k by (simp add: lw)
      show "w ! k" using k hot by (simp add: wn)
      show "\<forall>j<length w. k < j \<longrightarrow> \<not> w ! j" using top by (simp add: lw wn)
    qed
    then have eq: "convective_profile T_rad p ph sT lp = take (k + 1) c @ drop (k + 1) T_rad"
      using any by (simp add: cp)
    have len: "length (take (k + 1) c @ drop (k + 1) T_rad) = length p"
      using k by (simp add: lc assms(3))
    have nth: "(take (k + 1) c @ drop (k + 1) T_rad) ! i = (if i \<le> k then c ! i else T_rad ! i)"
      if "i < length p" for i
      using that k by (auto simp: nth_append lc assms(3))
    show ?thesis using len nth by (simp add: eq)
  qed
  show ?thesis
  proof (rule conjI)
    show "(\<forall>i<length p. \<not> lapse_integral p ph sT lp ! i > T_rad ! i) \<longrightarrow>
            convective_profile T_rad p ph sT lp = T_rad"
    proof (rule impI)
      assume "\<forall>i<length p. \<not> lapse_integral p ph sT lp ! i > T_rad ! i"
      then show "convective_profile T_rad p ph sT lp = T_rad"
        using part1 by (simp add: c_def)
    qed
  next
    show "\<forall>k<length p.
            lapse_integral p ph sT lp ! k > T_rad ! k
            \<and> (\<forall>j<length p. k < j \<longrightarrow> \<not> lapse_integral p ph sT lp ! j > T_rad ! j) \<longrightarrow>
            length (convective_profile T_rad p ph sT lp) = length p
            \<and> (\<forall>i<length p. convective_profile T_rad p ph sT lp ! i =
                  (if i \<le> k then lapse_integral p ph sT lp ! i else T_rad ! i))"
    proof (rule allI, rule impI, rule impI)
      fix k
      assume k: "k < length p"
        and h: "lapse_integral p ph sT lp ! k > T_rad ! k
          \<and> (\<forall>j<length p. k < j \<longrightarrow> \<not> lapse_integral p ph sT lp ! j > T_rad ! j)"
      from h have "T_rad ! k < c ! k" "\<forall>j<length p. k < j \<longrightarrow> \<not> T_rad ! j < c ! j"
        by (simp_all add: c_def)
      from part2 [OF k this] show "length (convective_profile T_rad p ph sT lp) = length p
         \<and> (\<forall>i<length p. convective_profile T_rad p ph sT lp ! i =
            (if i \<le> k then lapse_integral p ph sT lp ! i else T_rad ! i))"
        by (simp add: c_def)
    qed
  qed
qed

theorem convective_profile_clips_at_top_witness:
  "length (convective_profile [300, 250, 220] [900, 500, 100] [1000, 700, 300, 50] 305
      [- (1 / 10), - (1 / 10), - (1 / 10)]) = 3
   \<and> convective_profile [300, 250, 220] [900, 500, 100] [1000, 700, 300, 50] 305
      [- (1 / 10), - (1 / 10), - (1 / 10)] ! 0 = 295
   \<and> convective_profile [300, 250, 220] [900, 500, 100] [1000, 700, 300, 50] 305
      [- (1 / 10), - (1 / 10), - (1 / 10)] ! 1 = 255
   \<and> convective_profile [300, 250, 220] [900, 500, 100] [1000, 700, 300, 50] 305
      [- (1 / 10), - (1 / 10), - (1 / 10)] ! 2 = 220"
proof -
  let ?p = "[900, 500, 100] :: real list"
  let ?ph = "[1000, 700, 300, 50] :: real list"
  let ?T = "[300, 250, 220] :: real list"
  let ?lp = "[- (1 / 10), - (1 / 10), - (1 / 10)] :: real list"
  have li: "lapse_integral ?p ?ph 305 ?lp = [295, 255, 215]"
    by (simp add: lapse_integral_def dp_lapse_def np_cumsum_def)
  have shape: "?p \<noteq> []" "length ?lp = length ?p" "length ?T = length ?p"
    by simp_all
  note top = convective_profile_clips_at_top [OF shape, of ?ph 305, THEN conjunct2, rule_format, of 1]
  have "length (convective_profile ?T ?p ?ph 305 ?lp) = length ?p
     \<and> (\<forall>i<length ?p. convective_profile ?T ?p ?ph 305 ?lp ! i =
           (if i \<le> 1 then lapse_integral ?p ?ph 305 ?lp ! i else ?T ! i))"
    by (rule top) (simp_all add: li All_less_Suc)
  then show ?thesis
    by (simp add: li All_less_Suc numeral_2_eq_2)
qed

subsection \<open>The search: termination, exit and the last check\<close>

lemma counter_iteration: "counter (iteration check s) = counter s + 1"
  by (simp add: iteration_def Let_def split: prod.split)

lemma iteration_last:
  "surfaceT (iteration check s) = Some (proposal s)
   \<and> T_con (iteration check s) = fst (check (proposal s))"
  by (simp add: iteration_def Let_def split: prod.split)

lemma iteration_pos:
  "0 < snd (check (proposal s)) \<Longrightarrow>
     diff_pos (iteration check s) = snd (check (proposal s))
     \<and> surfaceTpos (iteration check s) = proposal s
     \<and> diff_neg (iteration check s) = diff_neg s
     \<and> surfaceTneg (iteration check s) = surfaceTneg s"
  by (cases "check (proposal s)") (simp add: iteration_def Let_def)

lemma iteration_neg:
  "\<not> 0 < snd (check (proposal s)) \<Longrightarrow>
     diff_neg (iteration check s) = snd (check (proposal s))
     \<and> surfaceTneg (iteration check s) = proposal s
     \<and> diff_pos (iteration check s) = diff_pos s
     \<and> surfaceTpos (iteration check s) = surfaceTpos s"
  by (cases "check (proposal s)") (simp add: iteration_def Let_def)

lemma solve_total:
  "counter s < 100 \<Longrightarrow> \<exists>r. solve check near_zero s = Some r"
proof (induction "100 - counter s" arbitrary: s rule: less_induct)
  case less
  show ?case
  proof (cases "iterating near_zero s \<and> - diff_neg s + diff_pos s \<noteq> 0
      \<and> counter (iteration check s) \<noteq> 100")
    case True
    then have "counter (iteration check s) < 100"
      using less.prems by (simp add: counter_iteration)
    moreover have "100 - counter (iteration check s) < 100 - counter s"
      using less.prems by (simp add: counter_iteration)
    ultimately obtain r where "solve check near_zero (iteration check s) = Some r"
      using less.hyps by blast
    with True show ?thesis
      by (subst solve.simps) simp
  next
    case False
    then show ?thesis
      by (subst solve.simps) auto
  qed
qed

lemma solve_exit:
  "counter s < 100 \<Longrightarrow> solve check near_zero s = Some (Inr s') \<Longrightarrow>
     \<exists>k. state_after check near_zero k s = Some s' \<and> \<not> iterating near_zero s'"
proof (induction "100 - counter s" arbitrary: s rule: less_induct)
  case less
  show ?case
  proof (cases "iterating near_zero s")
    case False
    with less.prems(2) have "s' = s"
      by (subst (asm) solve.simps) simp
    with False have "state_after check near_zero 0 s = Some s' \<and> \<not> iterating near_zero s'"
      by simp
    then show ?thesis by blast
  next
    case True
    from less.prems(2) True have run: "- diff_neg s + diff_pos s \<noteq> 0"
      "counter (iteration check s) \<noteq> 100"
      "solve check near_zero (iteration check s) = Some (Inr s')"
      by (subst (asm) solve.simps, simp split: if_splits)+
    have "counter (iteration check s) < 100"
      using less.prems(1) run(2) by (simp add: counter_iteration)
    moreover have "100 - counter (iteration check s) < 100 - counter s"
      using less.prems(1) by (simp add: counter_iteration)
    ultimately obtain k where k: "state_after check near_zero k (iteration check s) = Some s'"
      "\<not> iterating near_zero s'"
      using less.hyps run(3) by blast
    have "state_after check near_zero (Suc k) s = Some s'"
      using True run(1,2) k(1) by simp
    with k(2) show ?thesis by blast
  qed
qed


lemma check_of_eta:
  "(\<lambda>surfaceT'. create_and_check_profile ext a a_old h sf surfaceT'
      (pressure_lapse_rate ext (plev a) (phlev a) (T_atm a) lapse)) = check_of ext a a_old h lapse sf"
  by (rule ext) (simp add: check_of_def lapse_of_def)

lemma convective_adjustment_enters_loop:
  assumes "\<not> fixed_temperature sf"
    and "\<not> snd (check_of ext a a_old h lapse sf (temperature sf)) < near_zero_of sf"
    and "\<not> \<bar>heat_capacity sf * (np_min (T_atm a) - temperature sf)\<bar> < near_zero_of sf"
  shows "convective_adjustment ext a a_old h lapse sf timestep =
     (case solve (check_of ext a a_old h lapse sf) (near_zero_of sf)
             (loop_entry ext a a_old h lapse sf) of
        None \<Rightarrow> None
      | Some (Inl e) \<Rightarrow> Some (Inl e)
      | Some (Inr s) \<Rightarrow>
          (case surfaceT s of
             None \<Rightarrow> Some (Inl (UnboundLocalError ''surfaceT''))
           | Some surfaceT' \<Rightarrow> Some (Inr (T_con s, surfaceT'))))"
proof -
  obtain Tc d where cd: "create_and_check_profile ext a a_old h sf (temperature sf)
      (pressure_lapse_rate ext (plev a) (phlev a) (T_atm a) lapse) = (Tc, d)"
    by (cases "create_and_check_profile ext a a_old h sf (temperature sf)
      (pressure_lapse_rate ext (plev a) (phlev a) (T_atm a) lapse)")
  then have c: "check_of ext a a_old h lapse sf (temperature sf) = (Tc, d)"
    by (simp add: check_of_def lapse_of_def)
  have entry: "loop_entry ext a a_old h lapse sf =
      \<lparr>surfaceTpos = temperature sf, diff_pos = d, surfaceTneg = np_min (T_atm a),
       diff_neg = heat_capacity sf * (np_min (T_atm a) - temperature sf),
       T_con = Tc, surfaceT = None, counter = 0\<rparr>"
    by (simp add: loop_entry_def c)
  from assms(2) c have d: "\<not> d < heat_capacity sf / 10 ^ 13"
    by (simp add: near_zero_of_def)
  from assms(3) have n: "\<not> \<bar>heat_capacity sf * (np_min (T_atm a) - temperature sf)\<bar>
      < heat_capacity sf / 10 ^ 13"
    by (simp add: near_zero_of_def)
  show ?thesis
    unfolding convective_adjustment_def Let_def check_of_eta cd entry near_zero_of_def
    using assms(1) d n by simp
qed

lemma loop_entry_iterating:
  assumes "\<not> snd (check_of ext a a_old h lapse sf (temperature sf)) < near_zero_of sf"
    and "\<not> \<bar>heat_capacity sf * (np_min (T_atm a) - temperature sf)\<bar> < near_zero_of sf"
  shows "iterating (near_zero_of sf) (loop_entry ext a a_old h lapse sf)"
  using assms by (simp add: iterating_def loop_entry_def)

lemma iteration_holds_last_check:
  "iterating near_zero s \<Longrightarrow> holds_last_check check near_zero (iteration check s)"
  by (cases "0 < snd (check (proposal s))")
    (simp_all add: holds_last_check_def iteration_last iteration_pos iteration_neg iterating_def)

lemma state_after_holds_last_check:
  "state_after check near_zero k s = Some s' \<Longrightarrow> 0 < k \<Longrightarrow>
     holds_last_check check near_zero s'"
proof (induction k arbitrary: s)
  case 0
  then show ?case by simp
next
  case (Suc k)
  from Suc.prems(1) have it: "iterating near_zero s"
    and nxt: "state_after check near_zero k (iteration check s) = Some s'"
    by (simp_all split: if_splits)
  show ?case
  proof (cases k)
    case 0
    with nxt have "s' = iteration check s" by simp
    with it show ?thesis by (simp add: iteration_holds_last_check)
  next
    case (Suc j)
    with nxt Suc.IH show ?thesis by simp
  qed
qed

lemma holds_last_check_converged:
  assumes "holds_last_check check near_zero s" "\<not> iterating near_zero s"
  shows "\<exists>t. surfaceT s = Some t \<and> T_con s = fst (check t) \<and> \<bar>snd (check t)\<bar> < near_zero"
proof -
  from assms(1) obtain t where t: "surfaceT s = Some t" "T_con s = fst (check t)"
    and b: "if 0 < snd (check t)
              then diff_pos s = snd (check t) \<and> near_zero \<le> \<bar>diff_neg s\<bar>
              else diff_neg s = snd (check t) \<and> near_zero \<le> diff_pos s"
    by (auto simp: holds_last_check_def split: option.splits)
  have "\<bar>snd (check t)\<bar> < near_zero"
  proof (cases "0 < snd (check t)")
    case True
    with b assms(2) show ?thesis by (simp add: iterating_def)
  next
    case False
    with b assms(2) show ?thesis by (simp add: iterating_def)
  qed
  with t show ?thesis by blast
qed

lemma state_after_solve:
  "state_after check near_zero k s = Some s' \<Longrightarrow>
     solve check near_zero s = solve check near_zero s'"
proof (induction k arbitrary: s)
  case 0
  then show ?case by simp
next
  case (Suc k)
  from Suc.prems have run: "iterating near_zero s" "- diff_neg s + diff_pos s \<noteq> 0"
    "counter (iteration check s) \<noteq> 100"
    and nxt: "state_after check near_zero k (iteration check s) = Some s'"
    by (simp_all split: if_splits)
  have "solve check near_zero s = solve check near_zero (iteration check s)"
    using run by (subst solve.simps) simp
  also have "\<dots> = solve check near_zero s'"
    using nxt by (rule Suc.IH)
  finally show ?case .
qed

lemma state_after_Suc:
  "state_after check near_zero (Suc k) s =
     (case state_after check near_zero k s of
        None \<Rightarrow> None
      | Some s' \<Rightarrow> state_after check near_zero (Suc 0) s')"
proof (induction k arbitrary: s)
  case 0
  show ?case by simp
next
  case (Suc k)
  show ?case
    using Suc.IH [of "iteration check s"] by simp
qed

lemma state_after_entered:
  "state_after check near_zero k s = Some s' \<Longrightarrow> iterating near_zero s' \<Longrightarrow>
     iterating near_zero s"
  by (cases k) (simp_all split: if_splits)

subsection \<open>The bracket of the search\<close>

lemma bracket_proposal:
  assumes b: "bracket s" and nz: "0 < near_zero" and it: "iterating near_zero s"
  shows "surfaceTneg s \<le> proposal s \<and> proposal s \<le> surfaceTpos s"
proof -
  from b it nz have dn: "diff_neg s < 0" and dp: "0 < diff_pos s"
    by (auto simp: bracket_def iterating_def)
  define w where "w = - diff_neg s / (- diff_neg s + diff_pos s)"
  have den: "0 < - diff_neg s + diff_pos s"
    using dn dp by simp
  have w0: "0 \<le> w"
    unfolding w_def using dn den by (intro divide_nonneg_pos) simp_all
  have "- diff_neg s \<le> 1 * (- diff_neg s + diff_pos s)"
    using dp by simp
  then have w1: "w \<le> 1"
    unfolding w_def by (simp only: pos_divide_le_eq [OF den])
  note w = w0 w1
  have p: "proposal s = surfaceTneg s + (surfaceTpos s - surfaceTneg s) * w"
    by (simp add: proposal_def w_def)
  from b have a: "0 \<le> surfaceTpos s - surfaceTneg s"
    by (simp add: bracket_def)
  have lo: "0 \<le> (surfaceTpos s - surfaceTneg s) * w"
    using a w(1) by (rule mult_nonneg_nonneg)
  have "(surfaceTpos s - surfaceTneg s) * w \<le> (surfaceTpos s - surfaceTneg s) * 1"
    using w(2) a by (rule mult_left_mono)
  with lo show ?thesis
    by (simp add: p)
qed

lemma bracket_iteration:
  assumes b: "bracket s" and nz: "0 < near_zero" and it: "iterating near_zero s"
  shows "bracket (iteration check s)"
proof (cases "0 < snd (check (proposal s))")
  case True
  with b bracket_proposal [OF b nz it] show ?thesis
    by (simp add: bracket_def iteration_pos)
next
  case False
  with b bracket_proposal [OF b nz it] show ?thesis
    by (simp add: bracket_def iteration_neg)
qed

lemma bracket_state_after:
  "state_after check near_zero k s = Some s' \<Longrightarrow> bracket s \<Longrightarrow> 0 < near_zero \<Longrightarrow>
     bracket s'"
proof (induction k arbitrary: s)
  case 0
  then show ?case by simp
next
  case (Suc k)
  from Suc.prems(1) have it: "iterating near_zero s"
    and nxt: "state_after check near_zero k (iteration check s) = Some s'"
    by (simp_all split: if_splits)
  from Suc.prems(2,3) it have bi: "bracket (iteration check s)"
    by (rule bracket_iteration)
  from nxt bi Suc.prems(3) show ?case
    by (rule Suc.IH)
qed

lemma bracket_loop_entry:
  assumes "0 < heat_capacity sf" "np_min (T_atm a) \<le> temperature sf"
    and "iterating (near_zero_of sf) (loop_entry ext a a_old h lapse sf)"
  shows "bracket (loop_entry ext a a_old h lapse sf)"
proof -
  have nz: "0 < near_zero_of sf"
    using assms(1) by (simp add: near_zero_of_def)
  have "heat_capacity sf * (np_min (T_atm a) - temperature sf) \<le> 0"
    using assms(1,2) by (simp add: mult_le_0_iff)
  moreover have "0 \<le> snd (check_of ext a a_old h lapse sf (temperature sf))"
    using assms(3) nz by (simp add: iterating_def loop_entry_def)
  ultimately show ?thesis
    using assms(2) by (simp add: bracket_def loop_entry_def)
qed

text \<open>Every call of \<open>convective_adjustment\<close> ends: with a profile and a surface
  temperature, or with an error.\<close>

lemma convective_adjustment_ends:
  "\<exists>r. convective_adjustment ext a a_old h lapse sf timestep = Some r"
proof (cases "fixed_temperature sf
    \<or> snd (check_of ext a a_old h lapse sf (temperature sf)) < near_zero_of sf
    \<or> \<bar>heat_capacity sf * (np_min (T_atm a) - temperature sf)\<bar> < near_zero_of sf")
  case True
  then show ?thesis
    unfolding convective_adjustment_def Let_def check_of_def lapse_of_def near_zero_of_def
    by (auto split: prod.splits)
next
  case False
  then have g: "\<not> fixed_temperature sf"
    "\<not> snd (check_of ext a a_old h lapse sf (temperature sf)) < near_zero_of sf"
    "\<not> \<bar>heat_capacity sf * (np_min (T_atm a) - temperature sf)\<bar> < near_zero_of sf"
    by simp_all
  have "counter (loop_entry ext a a_old h lapse sf) < 100"
    by (simp add: loop_entry_def)
  then obtain r where "solve (check_of ext a a_old h lapse sf) (near_zero_of sf)
      (loop_entry ext a a_old h lapse sf) = Some r"
    using solve_total by blast
  then show ?thesis
    unfolding convective_adjustment_enters_loop [OF g]
    by (auto split: sum.splits option.splits)
qed

subsection \<open>How the search ends\<close>

lemma state_after_counter:
  "state_after check near_zero k s = Some s' \<Longrightarrow> counter s' = counter s + k"
proof (induction k arbitrary: s)
  case 0
  then show ?case by simp
next
  case (Suc k)
  from Suc.prems have "state_after check near_zero k (iteration check s) = Some s'"
    by (simp split: if_splits)
  from Suc.IH [OF this] show ?case
    by (simp add: counter_iteration)
qed

lemma state_after_below_cap:
  "counter s < 100 \<Longrightarrow> state_after check near_zero k s = Some s' \<Longrightarrow> counter s' < 100"
proof (induction k arbitrary: s)
  case 0
  then show ?case by simp
next
  case (Suc k)
  from Suc.prems(2) have n: "counter (iteration check s) \<noteq> 100"
    and nxt: "state_after check near_zero k (iteration check s) = Some s'"
    by (simp_all split: if_splits)
  from Suc.prems(1) n have "counter (iteration check s) < 100"
    by (simp add: counter_iteration)
  from this nxt show ?case by (rule Suc.IH)
qed

lemma solve_outcome:
  "counter s < 100 \<Longrightarrow> solve check near_zero s = Some r \<Longrightarrow>
     \<exists>k s'. state_after check near_zero k s = Some s' \<and>
       (if \<not> iterating near_zero s' then r = Inr s'
        else if - diff_neg s' + diff_pos s' = 0 then r = Inl NonFinite
        else counter (iteration check s') = 100
           \<and> r = Inl (ValueError ''No energy conserving convective profile can be found''))"
proof (induction "100 - counter s" arbitrary: s rule: less_induct)
  case less
  let ?here = "if \<not> iterating near_zero s then r = Inr s
        else if - diff_neg s + diff_pos s = 0 then r = Inl NonFinite
        else counter (iteration check s) = 100
           \<and> r = Inl (ValueError ''No energy conserving convective profile can be found'')"
  show ?case
  proof (cases "iterating near_zero s \<and> - diff_neg s + diff_pos s \<noteq> 0
      \<and> counter (iteration check s) \<noteq> 100")
    case False
    with less.prems(2) have "?here"
      by (subst (asm) solve.simps) (auto split: if_splits)
    then have "state_after check near_zero 0 s = Some s \<and> ?here"
      by simp
    then show ?thesis by blast
  next
    case True
    with less.prems(2) have nxt: "solve check near_zero (iteration check s) = Some r"
      by (subst (asm) solve.simps) simp
    have "counter (iteration check s) < 100"
      using less.prems(1) True by (simp add: counter_iteration)
    moreover have "100 - counter (iteration check s) < 100 - counter s"
      using less.prems(1) by (simp add: counter_iteration)
    ultimately obtain k s' where k: "state_after check near_zero k (iteration check s) = Some s'"
      and out: "if \<not> iterating near_zero s' then r = Inr s'
        else if - diff_neg s' + diff_pos s' = 0 then r = Inl NonFinite
        else counter (iteration check s') = 100
           \<and> r = Inl (ValueError ''No energy conserving convective profile can be found'')"
      using less.hyps nxt by blast
    have "state_after check near_zero (Suc k) s = Some s'"
      using True k by simp
    with out show ?thesis by blast
  qed
qed

lemma bracket_divisor:
  "bracket s \<Longrightarrow> 0 < near_zero \<Longrightarrow> iterating near_zero s \<Longrightarrow> 0 < - diff_neg s + diff_pos s"
  by (auto simp: bracket_def iterating_def)

lemma loop_state_bracket:
  assumes cap: "0 < heat_capacity sf" and cold: "np_min (T_atm a) \<le> temperature sf"
    and k: "state_after (check_of ext a a_old h lapse sf) (near_zero_of sf) k
              (loop_entry ext a a_old h lapse sf) = Some s"
    and it: "iterating (near_zero_of sf) s"
  shows "bracket s" and "0 < - diff_neg s + diff_pos s"
proof -
  have nz: "0 < near_zero_of sf"
    using cap by (simp add: near_zero_of_def)
  from k it have "iterating (near_zero_of sf) (loop_entry ext a a_old h lapse sf)"
    by (rule state_after_entered)
  with cap cold have "bracket (loop_entry ext a a_old h lapse sf)"
    by (rule bracket_loop_entry)
  with k show b: "bracket s" using nz by (rule bracket_state_after)
  from b nz it show "0 < - diff_neg s + diff_pos s" by (rule bracket_divisor)
qed

text \<open>How the search of a call ends when the surface has a positive heat capacity and is
  not colder than the coldest level: after at most 99 passes with a state in which the
  condition fails, or with the \<open>ValueError\<close> in the hundredth pass.\<close>

lemma search_outcome:
  assumes cap: "0 < heat_capacity sf" and cold: "np_min (T_atm a) \<le> temperature sf"
  shows "\<exists>k s. state_after (check_of ext a a_old h lapse sf) (near_zero_of sf) k
                 (loop_entry ext a a_old h lapse sf) = Some s
            \<and> k \<le> 99
            \<and> (if iterating (near_zero_of sf) s
                then k = 99
                   \<and> solve (check_of ext a a_old h lapse sf) (near_zero_of sf)
                        (loop_entry ext a a_old h lapse sf)
                      = Some (Inl (ValueError
                           ''No energy conserving convective profile can be found''))
                else solve (check_of ext a a_old h lapse sf) (near_zero_of sf)
                        (loop_entry ext a a_old h lapse sf) = Some (Inr s))"
proof -
  let ?check = "check_of ext a a_old h lapse sf"
  let ?nz = "near_zero_of sf"
  let ?s0 = "loop_entry ext a a_old h lapse sf"
  have c0: "counter ?s0 < 100" "counter ?s0 = 0"
    by (simp_all add: loop_entry_def)
  from solve_total [OF c0(1)] obtain r where r: "solve ?check ?nz ?s0 = Some r"
    by blast
  from solve_outcome [OF c0(1) r] obtain k s where k: "state_after ?check ?nz k ?s0 = Some s"
    and out: "if \<not> iterating ?nz s then r = Inr s
        else if - diff_neg s + diff_pos s = 0 then r = Inl NonFinite
        else counter (iteration ?check s) = 100
           \<and> r = Inl (ValueError ''No energy conserving convective profile can be found'')"
    by blast
  have cnt: "counter s = k"
    using state_after_counter [OF k] c0(2) by simp
  show ?thesis
  proof (cases "iterating ?nz s")
    case False
    with out r have res: "solve ?check ?nz ?s0 = Some (Inr s)" by simp
    have "counter s < 100"
      using c0(1) k by (rule state_after_below_cap)
    with cnt have "k \<le> 99" by simp
    with k res False show ?thesis by auto
  next
    case True
    from loop_state_bracket(2) [OF cap cold k True] have "- diff_neg s + diff_pos s \<noteq> 0"
      by simp
    with out True r have c: "counter (iteration ?check s) = 100"
      and res: "solve ?check ?nz ?s0
          = Some (Inl (ValueError ''No energy conserving convective profile can be found''))"
      by simp_all
    from c cnt have "k = 99" by (simp add: counter_iteration)
    with k res True show ?thesis by auto
  qed
qed

subsection \<open>The energy check of the example columns\<close>

lemma column_lapse: "lapse_of column_externals (column T h) [0] = [0]"
  by (simp add: lapse_of_def pressure_lapse_rate_def column_externals_def column_def)

lemma column_profile:
  "convective_profile [T] [900] [1000, 800] t [0] = [if T < t then t else T]"
  by (simp add: convective_profile_def lapse_integral_def dp_lapse_def np_cumsum_def
      np_any_def np_where_def np_max_def)

lemma column_check_fixed:
  "check_of column_externals (column T h) (column T' h') fixed_vmr [0] (slab T_s) t =
     ([if T < t then t else T],
      200 * ((if T < t then t else T) - T) + 200 * (t - T_s) + (h - h') * 2500000)"
  by (simp add: check_of_def column_lapse create_and_check_profile_def Let_def)
     (simp add: column_def slab_def column_profile column_externals_def
       update_temporary_atmosphere_def water_vapour_profile_def fixed_vmr_def
       energy_difference_dry_def latent_heat_difference_def np_sum_def)

text \<open>A column that convection warms: the radiative profile at 200 under a surface at
  300. The search proposes 250, whose check is zero, and returns after one pass.\<close>

lemma np_min_single: "np_min [x] = x"
  by (simp add: np_min_def)

lemma slab_fields:
  "temperature (slab T) = T" "heat_capacity (slab T) = 200" "\<not> fixed_temperature (slab T)"
  by (simp_all add: slab_def)

lemma column_fields:
  "plev (column T h) = [900]" "phlev (column T h) = [1000, 800]" "T_atm (column T h) = [T]"
  "H2O (column T h) = [h]"
  by (simp_all add: column_def)

lemma warm_entry:
  "loop_entry column_externals (column 200 0) (column 200 0) fixed_vmr [0] (slab 300) =
     \<lparr>surfaceTpos = 300, diff_pos = 20000, surfaceTneg = 200, diff_neg = - 20000,
      T_con = [300], surfaceT = None, counter = 0\<rparr>"
  by (simp add: loop_entry_def slab_fields column_fields column_check_fixed np_min_single)

lemma warm_pass:
  "iteration (check_of column_externals (column 200 0) (column 200 0) fixed_vmr [0] (slab 300))
     \<lparr>surfaceTpos = 300, diff_pos = 20000, surfaceTneg = 200, diff_neg = - 20000,
      T_con = [300], surfaceT = None, counter = 0\<rparr> =
     \<lparr>surfaceTpos = 300, diff_pos = 20000, surfaceTneg = 250, diff_neg = 0,
      T_con = [250], surfaceT = Some 250, counter = 1\<rparr>"
  by (simp add: iteration_def proposal_def column_check_fixed)

lemma warm_solve:
  "solve (check_of column_externals (column 200 0) (column 200 0) fixed_vmr [0] (slab 300))
     (near_zero_of (slab 300))
     (loop_entry column_externals (column 200 0) (column 200 0) fixed_vmr [0] (slab 300)) =
   Some (Inr \<lparr>surfaceTpos = 300, diff_pos = 20000, surfaceTneg = 250, diff_neg = 0,
      T_con = [250], surfaceT = Some 250, counter = 1\<rparr>)"
  unfolding warm_entry
  by (subst solve.simps, simp add: warm_pass iterating_def near_zero_of_def slab_fields)+

lemma warm_guards:
  "\<not> fixed_temperature (slab 300)"
  "\<not> snd (check_of column_externals (column 200 0) (column 200 0) fixed_vmr [0] (slab 300)
           (temperature (slab 300))) < near_zero_of (slab 300)"
  "\<not> \<bar>heat_capacity (slab 300) * (np_min (T_atm (column 200 0)) - temperature (slab 300))\<bar>
       < near_zero_of (slab 300)"
  by (simp_all add: slab_fields column_fields column_check_fixed near_zero_of_def np_min_single)

lemma warm_adjustment:
  "convective_adjustment column_externals (column 200 0) (column 200 0) fixed_vmr [0] (slab 300)
     (1 / 10) = Some (Inr ([250], 250))"
  by (simp add: convective_adjustment_enters_loop [OF warm_guards] warm_solve)


text \<open>The column \<open>column 299 0\<close> under the stepping humidity model: the pass \<open>k\<close>
  proposes \<open>300 - k/128\<close> and finds a positive difference, up to the hundredth pass,
  whose difference is zero.\<close>

lemma column_check_stepping:
  "299 < t \<Longrightarrow>
   check_of column_externals (column 299 0) (column 299 0) stepping_vmr [0] (slab 300) t =
     ([t], stepping_difference t)"
  by (simp add: check_of_def column_lapse create_and_check_profile_def Let_def)
     (simp add: column_def slab_def column_profile column_externals_def
       update_temporary_atmosphere_def water_vapour_profile_def stepping_vmr_def
       energy_difference_dry_def latent_heat_difference_def np_sum_def diff_divide_distrib)

lemma stepping_above: "k \<le> 100 \<Longrightarrow> (299::real) < 300 - real k / 128"
  by simp

lemma stepping_threshold: "k \<le> 100 \<Longrightarrow> (300 - real k / 128 \<le> 29922 / 100) = (k = 100)"
proof -
  assume le: "k \<le> 100"
  have "(300 - real k / 128 \<le> 29922 / 100) = (real 9984 \<le> real (100 * k))"
    by (simp add: field_simps)
  also have "\<dots> = (9984 \<le> 100 * k)"
    by (simp only: of_nat_le_iff)
  also have "\<dots> = (k = 100)"
    using le by auto
  finally show ?thesis .
qed

lemma stepping_check:
  assumes "k \<le> 100"
  shows "check_of column_externals (column 299 0) (column 299 0) stepping_vmr [0] (slab 300)
     (300 - real k / 128) = ([300 - real k / 128], if k = 100 then 0 else 200 / (127 - real k))"
proof -
  have "128 * (300 - real k / 128) - 38273 = 127 - real k"
    by simp
  then show ?thesis
    by (simp only: column_check_stepping [OF stepping_above [OF assms]]
        stepping_difference_def stepping_threshold [OF assms])
qed

lemma stepping_proposal:
  assumes "k \<le> 99"
  shows "proposal (stepping_pass k) = 300 - real (Suc k) / 128"
proof -
  define x where "x = 127 - real k"
  have x: "0 < x" using assms by (simp add: x_def)
  have k: "real k = 127 - x" by (simp add: x_def)
  have "proposal (stepping_pass k) = 299 + (1 - real k / 128) * 200 / (200 + 200 / x)"
    by (simp add: proposal_def stepping_pass_def x_def)
  also have "\<dots> = 299 + x / 128"
    using x by (simp add: k field_simps)
  also have "\<dots> = 300 - real (Suc k) / 128"
    by (simp add: x_def field_simps)
  finally show ?thesis .
qed

lemma stepping_iterating: "k \<le> 99 \<Longrightarrow> iterating (near_zero_of (slab 300)) (stepping_pass k)"
proof -
  assume le: "k \<le> 99"
  then have "127 - real k \<le> 127" "0 < 127 - real k" by simp_all
  then have "200 / 127 \<le> 200 / (127 - real k)"
    by (intro divide_left_mono) simp_all
  moreover have "(200::real) / 10 ^ 13 \<le> 200 / 127" by simp
  ultimately show ?thesis
    by (simp add: iterating_def stepping_pass_def near_zero_of_def slab_fields)
qed

lemma stepping_entry:
  "loop_entry column_externals (column 299 0) (column 299 0) stepping_vmr [0] (slab 300) =
     stepping_pass 0"
  using stepping_check [of 0]
  by (simp add: loop_entry_def slab_fields column_fields np_min_single stepping_pass_def)

lemma stepping_iteration:
  assumes "Suc k \<le> 99"
  shows "iteration (check_of column_externals (column 299 0) (column 299 0) stepping_vmr [0]
       (slab 300)) (stepping_pass k) = stepping_pass (Suc k)"
proof -
  have le: "k \<le> 99" "Suc k \<le> 100" "Suc k \<noteq> 100" using assms by simp_all
  have p: "proposal (stepping_pass k) = 300 - real (Suc k) / 128"
    using le(1) by (rule stepping_proposal)
  have c: "check_of column_externals (column 299 0) (column 299 0) stepping_vmr [0] (slab 300)
     (300 - real (Suc k) / 128) = ([300 - real (Suc k) / 128], 200 / (127 - real (Suc k)))"
    using le(3) by (simp only: stepping_check [OF le(2)] if_False)
  have d: "0 < 200 / (127 - real (Suc k))"
    using assms by simp
  show ?thesis
    unfolding iteration_def p c Let_def
    using d by (simp add: stepping_pass_def)
qed

lemma stepping_hundredth_iteration:
  "iteration (check_of column_externals (column 299 0) (column 299 0) stepping_vmr [0] (slab 300))
       (stepping_pass 99) =
     \<lparr>surfaceTpos = 300 - 99 / 128, diff_pos = 200 / 28, surfaceTneg = 300 - 100 / 128,
      diff_neg = 0, T_con = [300 - 100 / 128], surfaceT = Some (300 - 100 / 128),
      counter = 100\<rparr>"
proof -
  have p: "proposal (stepping_pass 99) = 300 - real 100 / 128"
    using stepping_proposal [of 99] by simp
  have c: "check_of column_externals (column 299 0) (column 299 0) stepping_vmr [0] (slab 300)
     (300 - real 100 / 128) = ([300 - real 100 / 128], 0)"
    using stepping_check [of 100] by simp
  show ?thesis
    unfolding iteration_def p c Let_def
    by (simp add: stepping_pass_def)
qed

lemma stepping_state_after:
  "j + k \<le> 99 \<Longrightarrow>
     state_after (check_of column_externals (column 299 0) (column 299 0) stepping_vmr [0]
       (slab 300)) (near_zero_of (slab 300)) k (stepping_pass j) = Some (stepping_pass (j + k))"
proof (induction k arbitrary: j)
  case 0
  show ?case by simp
next
  case (Suc k)
  from Suc.prems have n: "Suc j \<le> 99" and le: "Suc j + k \<le> 99" and j: "j \<le> 99"
    by simp_all
  have d: "- diff_neg (stepping_pass j) + diff_pos (stepping_pass j) \<noteq> 0"
  proof -
    have pos: "0 < 200 / (127 - real j)" using j by simp
    have "- diff_neg (stepping_pass j) + diff_pos (stepping_pass j) = 200 + 200 / (127 - real j)"
      by (simp add: stepping_pass_def)
    with pos have "0 < - diff_neg (stepping_pass j) + diff_pos (stepping_pass j)"
      by linarith
    then show ?thesis by simp
  qed
  have c: "counter (stepping_pass (Suc j)) \<noteq> 100"
    using n by (simp add: stepping_pass_def)
  show ?case
    using Suc.IH [OF le] stepping_iterating [OF j] d c
    by (simp add: stepping_iteration [OF n])
qed

lemma stepping_solve:
  "solve (check_of column_externals (column 299 0) (column 299 0) stepping_vmr [0] (slab 300))
     (near_zero_of (slab 300)) (stepping_pass 0) =
   Some (Inl (ValueError ''No energy conserving convective profile can be found''))"
proof -
  let ?check = "check_of column_externals (column 299 0) (column 299 0) stepping_vmr [0]
     (slab 300)"
  let ?nz = "near_zero_of (slab 300)"
  have "state_after ?check ?nz 99 (stepping_pass 0) = Some (stepping_pass (0 + 99))"
    by (rule stepping_state_after) simp
  then have "solve ?check ?nz (stepping_pass 0) = solve ?check ?nz (stepping_pass 99)"
    using state_after_solve by fastforce
  also have "\<dots> = Some (Inl (ValueError ''No energy conserving convective profile can be found''))"
    using stepping_iterating [of 99]
    by (subst solve.simps) (simp add: stepping_hundredth_iteration, simp add: stepping_pass_def)
  finally show ?thesis .
qed

lemma stepping_guards:
  "0 < heat_capacity (slab 300)"
  "np_min (T_atm (column 299 0)) \<le> temperature (slab 300)"
  "\<not> fixed_temperature (slab 300)"
  "\<not> snd (check_of column_externals (column 299 0) (column 299 0) stepping_vmr [0] (slab 300)
           (temperature (slab 300))) < near_zero_of (slab 300)"
  "\<not> \<bar>heat_capacity (slab 300) * (np_min (T_atm (column 299 0)) - temperature (slab 300))\<bar>
       < near_zero_of (slab 300)"
  using stepping_check [of 0]
  by (simp_all add: slab_fields column_fields near_zero_of_def np_min_single)

lemma warm_surface:
  "0 < heat_capacity (slab 300)"
  "np_min (T_atm (column 200 0)) \<le> temperature (slab 300)"
  by (simp_all add: slab_fields column_fields np_min_single)

text \<open>Two columns at 300 under a surface at 300, the coldest radiative temperature: one
  with a critical lapse rate of \<open>-1/100\<close>, which the lapse-rate integral warms to 301, and
  one with a lapse rate of zero that holds more water vapour than at the previous
  timestep. Both leave \<open>convective_adjustment\<close> by the second early return.\<close>

lemma inverted_lapse:
  "lapse_of column_externals (column 300 0) [- (1 / 100)] = [1 / 100]"
  by (simp add: lapse_of_def pressure_lapse_rate_def column_externals_def column_def)

lemma inverted_profile:
  "convective_profile [300] [900] [1000, 800] 300 [1 / 100] = [301]"
  by (simp add: convective_profile_def lapse_integral_def dp_lapse_def np_cumsum_def
      np_any_def np_where_def np_max_def)

lemma inverted_check:
  "create_and_check_profile column_externals (column 300 0) (column 300 0) fixed_vmr (slab 300)
     300 [1 / 100] = ([301], 200)"
  by (simp add: create_and_check_profile_def Let_def column_fields slab_fields
      inverted_profile)
     (simp add: column_def column_externals_def update_temporary_atmosphere_def
       water_vapour_profile_def fixed_vmr_def energy_difference_dry_def
       latent_heat_difference_def np_sum_def)

lemma inverted_adjustment:
  "convective_adjustment column_externals (column 300 0) (column 300 0) fixed_vmr [- (1 / 100)]
     (slab 300) (1 / 10) = Some (Inr ([301], 300))"
proof -
  have l: "pressure_lapse_rate column_externals (plev (column 300 0)) (phlev (column 300 0))
      (T_atm (column 300 0)) [- (1 / 100)] = [1 / 100]"
    using inverted_lapse by (simp add: lapse_of_def)
  have t: "temperature (slab 300) = 300" "heat_capacity (slab 300) = 200"
    by (simp_all add: slab_fields)
  have m: "np_min (T_atm (column 300 0)) = 300"
    by (simp add: column_fields np_min_single)
  show ?thesis
    unfolding convective_adjustment_def Let_def l t inverted_check m
    using slab_fields(3) [of 300] by simp
qed

lemma moist_adjustment:
  "convective_adjustment column_externals (column 300 (1 / 100)) (column 300 0) fixed_vmr [0]
     (slab 300) (1 / 10) = Some (Inr ([300], 300))"
proof -
  have c: "check_of column_externals (column 300 (1 / 100)) (column 300 0) fixed_vmr [0]
      (slab 300) 300 = ([300], 25000)"
    by (simp add: column_check_fixed)
  then have c': "create_and_check_profile column_externals (column 300 (1 / 100)) (column 300 0)
      fixed_vmr (slab 300) 300 (lapse_of column_externals (column 300 (1 / 100)) [0])
      = ([300], 25000)"
    by (simp add: check_of_def)
  have l: "pressure_lapse_rate column_externals (plev (column 300 (1 / 100)))
      (phlev (column 300 (1 / 100))) (T_atm (column 300 (1 / 100))) [0]
      = lapse_of column_externals (column 300 (1 / 100)) [0]"
    by (simp add: lapse_of_def)
  have t: "temperature (slab 300) = 300" "heat_capacity (slab 300) = 200"
    by (simp_all add: slab_fields)
  have m: "np_min (T_atm (column 300 (1 / 100))) = 300"
    by (simp add: column_fields np_min_single)
  show ?thesis
    unfolding convective_adjustment_def Let_def l t c' m
    using slab_fields(3) [of 300] by simp
qed

subsection \<open>Energy conservation of the returned state\<close>

text \<open>
  C1, as amended. When the surface is not a fixed-temperature one, has a positive heat
  capacity and is not colder than the coldest level of the radiative profile, and neither
  of the two early returns before the loop is taken, \<open>convective_adjustment\<close> either
  raises the \<open>ValueError\<close> of the iteration cap or returns from its loop, and then the
  energy check of the returned surface temperature yields the returned profile and a
  difference below \<open>heat_capacity / 1e13\<close> in absolute value.
\<close>

theorem convective_adjustment_conserves_energy:
  assumes cap: "0 < heat_capacity sf" and cold: "np_min (T_atm a) \<le> temperature sf"
    and nofix: "\<not> fixed_temperature sf"
    and step1: "\<not> snd (check_of ext a a_old h lapse sf (temperature sf)) < near_zero_of sf"
    and step2: "\<not> \<bar>heat_capacity sf * (np_min (T_atm a) - temperature sf)\<bar> < near_zero_of sf"
  shows "convective_adjustment ext a a_old h lapse sf timestep
           = Some (Inl (ValueError ''No energy conserving convective profile can be found''))
       \<or> (\<exists>T_new T_s_new.
             convective_adjustment ext a a_old h lapse sf timestep = Some (Inr (T_new, T_s_new))
           \<and> fst (create_and_check_profile ext a a_old h sf T_s_new (lapse_of ext a lapse)) = T_new
           \<and> \<bar>snd (create_and_check_profile ext a a_old h sf T_s_new (lapse_of ext a lapse))\<bar>
               < heat_capacity sf / 10 ^ 13)"
proof -
  let ?check = "check_of ext a a_old h lapse sf"
  let ?nz = "near_zero_of sf"
  let ?s0 = "loop_entry ext a a_old h lapse sf"
  from search_outcome [OF cap cold] obtain k s
    where k: "state_after ?check ?nz k ?s0 = Some s"
      and out: "if iterating ?nz s
                then k = 99 \<and> solve ?check ?nz ?s0
                      = Some (Inl (ValueError
                           ''No energy conserving convective profile can be found''))
                else solve ?check ?nz ?s0 = Some (Inr s)"
    by blast
  show ?thesis
  proof (cases "iterating ?nz s")
    case True
    with out have "convective_adjustment ext a a_old h lapse sf timestep
        = Some (Inl (ValueError ''No energy conserving convective profile can be found''))"
      by (simp add: convective_adjustment_enters_loop [OF nofix step1 step2])
    then show ?thesis by (rule disjI1)
  next
    case False
    with out have res: "solve ?check ?nz ?s0 = Some (Inr s)" by simp
    have "0 < k"
    proof (rule ccontr)
      assume "\<not> 0 < k"
      with k have "s = ?s0" by simp
      with False loop_entry_iterating [OF step1 step2] show False by simp
    qed
    with k have "holds_last_check ?check ?nz s" by (rule state_after_holds_last_check)
    from holds_last_check_converged [OF this False] obtain t
      where t: "surfaceT s = Some t" "T_con s = fst (?check t)" "\<bar>snd (?check t)\<bar> < ?nz"
      by blast
    have "convective_adjustment ext a a_old h lapse sf timestep = Some (Inr (T_con s, t))"
      by (simp add: convective_adjustment_enters_loop [OF nofix step1 step2] res t(1))
    moreover have "fst (create_and_check_profile ext a a_old h sf t (lapse_of ext a lapse))
        = T_con s"
      using t(2) by (simp add: check_of_def)
    moreover have "\<bar>snd (create_and_check_profile ext a a_old h sf t (lapse_of ext a lapse))\<bar>
        < heat_capacity sf / 10 ^ 13"
      using t(3) by (simp add: check_of_def near_zero_of_def)
    ultimately show ?thesis by blast
  qed
qed

theorem convective_adjustment_conserves_energy_witness:
  "convective_adjustment column_externals (column 200 0) (column 200 0) fixed_vmr [0] (slab 300)
     (1 / 10) = Some (Inr ([250], 250))
   \<and> fst (create_and_check_profile column_externals (column 200 0) (column 200 0) fixed_vmr
           (slab 300) 250 (lapse_of column_externals (column 200 0) [0])) = [250]
   \<and> \<bar>snd (create_and_check_profile column_externals (column 200 0) (column 200 0) fixed_vmr
           (slab 300) 250 (lapse_of column_externals (column 200 0) [0]))\<bar>
       < heat_capacity (slab 300) / 10 ^ 13"
  using convective_adjustment_conserves_energy [OF warm_surface warm_guards,
      where timestep = "1 / 10"]
    warm_adjustment
  by simp

text \<open>C1 as stated fails at the second early return, also under the conditions on the
  surface. With a critical lapse rate of \<open>-1/100\<close> the first check warms the column from
  300 to 301 at the energy difference 200, the first early return is not taken, the
  second is (the surface is at the coldest radiative temperature), and the returned
  pair \<open>([301], 300)\<close> has the energy difference 200. With a lapse rate of zero and more
  water vapour than at the previous timestep the returned pair is the radiative state
  and its energy difference is the latent 25000.\<close>

theorem second_early_return_counterexample:
  "0 < heat_capacity (slab 300)
   \<and> np_min (T_atm (column 300 0)) \<le> temperature (slab 300)
   \<and> \<not> fixed_temperature (slab 300)
   \<and> convective_adjustment column_externals (column 300 0) (column 300 0) fixed_vmr
        [- (1 / 100)] (slab 300) (1 / 10) = Some (Inr ([301], 300))
   \<and> \<not> snd (create_and_check_profile column_externals (column 300 0) (column 300 0) fixed_vmr
            (slab 300) (temperature (slab 300))
            (lapse_of column_externals (column 300 0) [- (1 / 100)])) < near_zero_of (slab 300)
   \<and> create_and_check_profile column_externals (column 300 0) (column 300 0) fixed_vmr
        (slab 300) 300 (lapse_of column_externals (column 300 0) [- (1 / 100)]) = ([301], 200)
   \<and> \<not> \<bar>snd (create_and_check_profile column_externals (column 300 0) (column 300 0) fixed_vmr
            (slab 300) 300 (lapse_of column_externals (column 300 0) [- (1 / 100)]))\<bar>
         < heat_capacity (slab 300) / 10 ^ 13
   \<and> convective_adjustment column_externals (column 300 (1 / 100)) (column 300 0) fixed_vmr [0]
        (slab 300) (1 / 10) = Some (Inr ([300], 300))
   \<and> create_and_check_profile column_externals (column 300 (1 / 100)) (column 300 0)
        fixed_vmr (slab 300) 300 (lapse_of column_externals (column 300 (1 / 100)) [0])
       = ([300], 25000)
   \<and> \<not> \<bar>snd (create_and_check_profile column_externals (column 300 (1 / 100)) (column 300 0)
           fixed_vmr (slab 300) 300 (lapse_of column_externals (column 300 (1 / 100)) [0]))\<bar>
       < heat_capacity (slab 300) / 10 ^ 13"
proof -
  have c: "create_and_check_profile column_externals (column 300 (1 / 100)) (column 300 0)
      fixed_vmr (slab 300) 300 (lapse_of column_externals (column 300 (1 / 100)) [0])
      = ([300], 25000)"
    using column_check_fixed [of 300 "1 / 100" 300 0 300 300] by (simp add: check_of_def)
  show ?thesis
    by (simp add: inverted_adjustment moist_adjustment inverted_lapse inverted_check c
        slab_fields column_fields np_min_single near_zero_of_def)
qed

subsection \<open>When the loop returns\<close>

text \<open>
  C5, as amended. When the surface has a positive heat capacity and is not colder than
  the coldest level of the radiative profile, the loop of \<open>convective_adjustment\<close>, once
  entered, returns as soon as one of \<open>diff_pos < near_zero\<close> and
  \<open>|diff_neg| < near_zero\<close> holds: at a return from the loop exactly one of the two
  holds, never both; the proposal never divides by zero; a state of the loop in which
  one of the two holds is returned; and while both fail (and the pass does not bring the
  counter to 100) the loop makes another pass.
\<close>

theorem loop_returns_on_one_bound:
  assumes cap: "0 < heat_capacity sf" and cold: "np_min (T_atm a) \<le> temperature sf"
    and step1: "\<not> snd (check_of ext a a_old h lapse sf (temperature sf)) < near_zero_of sf"
    and step2: "\<not> \<bar>heat_capacity sf * (np_min (T_atm a) - temperature sf)\<bar> < near_zero_of sf"
  shows "(\<forall>s'. solve (check_of ext a a_old h lapse sf) (near_zero_of sf)
                  (loop_entry ext a a_old h lapse sf) = Some (Inr s') \<longrightarrow>
              (diff_pos s' < near_zero_of sf) \<noteq> (\<bar>diff_neg s'\<bar> < near_zero_of sf))
       \<and> solve (check_of ext a a_old h lapse sf) (near_zero_of sf)
            (loop_entry ext a a_old h lapse sf) \<noteq> Some (Inl NonFinite)
       \<and> (\<forall>k s. state_after (check_of ext a a_old h lapse sf) (near_zero_of sf) k
                    (loop_entry ext a a_old h lapse sf) = Some s \<longrightarrow>
              ((diff_pos s < near_zero_of sf \<or> \<bar>diff_neg s\<bar> < near_zero_of sf) \<longrightarrow>
                 solve (check_of ext a a_old h lapse sf) (near_zero_of sf)
                   (loop_entry ext a a_old h lapse sf) = Some (Inr s))
              \<and> (near_zero_of sf \<le> diff_pos s \<and> near_zero_of sf \<le> \<bar>diff_neg s\<bar>
                   \<and> counter (iteration (check_of ext a a_old h lapse sf) s) \<noteq> 100 \<longrightarrow>
                 state_after (check_of ext a a_old h lapse sf) (near_zero_of sf) (Suc k)
                    (loop_entry ext a a_old h lapse sf)
                   = Some (iteration (check_of ext a a_old h lapse sf) s)))"
proof -
  let ?check = "check_of ext a a_old h lapse sf"
  let ?nz = "near_zero_of sf"
  let ?s0 = "loop_entry ext a a_old h lapse sf"
  have one: "(diff_pos s' < ?nz) \<noteq> (\<bar>diff_neg s'\<bar> < ?nz)"
    if s: "solve ?check ?nz ?s0 = Some (Inr s')" for s'
  proof -
    have c0: "counter ?s0 < 100" by (simp add: loop_entry_def)
    from solve_exit [OF c0 s] obtain k where k: "state_after ?check ?nz k ?s0 = Some s'"
      and stop: "\<not> iterating ?nz s'" by blast
    have "0 < k"
    proof (rule ccontr)
      assume "\<not> 0 < k"
      with k have "s' = ?s0" by simp
      with stop loop_entry_iterating [OF step1 step2] show False by simp
    qed
    with k have "holds_last_check ?check ?nz s'" by (rule state_after_holds_last_check)
    then obtain t where b: "if 0 < snd (?check t)
              then diff_pos s' = snd (?check t) \<and> ?nz \<le> \<bar>diff_neg s'\<bar>
              else diff_neg s' = snd (?check t) \<and> ?nz \<le> diff_pos s'"
      by (auto simp: holds_last_check_def split: option.splits)
    show ?thesis
    proof (cases "0 < snd (?check t)")
      case True
      with b stop show ?thesis by (auto simp: iterating_def)
    next
      case False
      with b stop show ?thesis by (auto simp: iterating_def)
    qed
  qed
  have finite: "solve ?check ?nz ?s0 \<noteq> Some (Inl NonFinite)"
    using search_outcome [OF cap cold, of ext a_old h lapse]
    by (auto split: if_splits)
  have stops: "solve ?check ?nz ?s0 = Some (Inr s)"
    if k: "state_after ?check ?nz k ?s0 = Some s"
      and conv: "diff_pos s < ?nz \<or> \<bar>diff_neg s\<bar> < ?nz" for k s
  proof -
    from conv have "\<not> iterating ?nz s" by (auto simp: iterating_def)
    then have "solve ?check ?nz s = Some (Inr s)" by (subst solve.simps) simp
    with state_after_solve [OF k] show ?thesis by simp
  qed
  have goes: "state_after ?check ?nz (Suc k) ?s0 = Some (iteration ?check s)"
    if k: "state_after ?check ?nz k ?s0 = Some s"
      and run: "?nz \<le> diff_pos s \<and> ?nz \<le> \<bar>diff_neg s\<bar>
                   \<and> counter (iteration ?check s) \<noteq> 100" for k s
  proof -
    from run have it: "iterating ?nz s" by (simp add: iterating_def)
    from loop_state_bracket(2) [OF cap cold k it] have "- diff_neg s + diff_pos s \<noteq> 0"
      by simp
    with run it have one: "state_after ?check ?nz (Suc 0) s = Some (iteration ?check s)"
      by simp
    have "state_after ?check ?nz (Suc k) ?s0 =
        (case state_after ?check ?nz k ?s0 of
           None \<Rightarrow> None
         | Some s' \<Rightarrow> state_after ?check ?nz (Suc 0) s')"
      by (rule state_after_Suc)
    also have "\<dots> = state_after ?check ?nz (Suc 0) s"
      by (simp only: k option.case)
    finally show ?thesis
      by (simp only: one)
  qed
  from one finite stops goes show ?thesis by blast
qed

theorem loop_returns_on_one_bound_witness:
  "solve (check_of column_externals (column 200 0) (column 200 0) fixed_vmr [0] (slab 300))
     (near_zero_of (slab 300))
     (loop_entry column_externals (column 200 0) (column 200 0) fixed_vmr [0] (slab 300)) =
   Some (Inr \<lparr>surfaceTpos = 300, diff_pos = 20000, surfaceTneg = 250, diff_neg = 0,
      T_con = [250], surfaceT = Some 250, counter = 1\<rparr>)
   \<and> (diff_pos \<lparr>surfaceTpos = 300, diff_pos = 20000, surfaceTneg = 250, diff_neg = 0,
      T_con = [250], surfaceT = Some 250, counter = 1\<rparr> < near_zero_of (slab 300))
     \<noteq> (\<bar>diff_neg \<lparr>surfaceTpos = 300, diff_pos = 20000, surfaceTneg = 250, diff_neg = 0,
      T_con = [250], surfaceT = Some 250, counter = 1\<rparr>\<bar> < near_zero_of (slab 300))"
  using loop_returns_on_one_bound [OF warm_surface warm_guards(2,3), THEN conjunct1,
      rule_format, OF warm_solve]
    warm_solve
  by simp

text \<open>C5 as stated fails on the column that convection warms: the loop returns after
  one pass with \<open>diff_neg = 0\<close> and \<open>diff_pos = 20000\<close>, far above \<open>near_zero\<close>.\<close>

theorem loop_returns_with_one_bound_counterexample:
  "convective_adjustment column_externals (column 200 0) (column 200 0) fixed_vmr [0] (slab 300)
     (1 / 10) = Some (Inr ([250], 250))
   \<and> solve (check_of column_externals (column 200 0) (column 200 0) fixed_vmr [0] (slab 300))
     (near_zero_of (slab 300))
     (loop_entry column_externals (column 200 0) (column 200 0) fixed_vmr [0] (slab 300)) =
   Some (Inr \<lparr>surfaceTpos = 300, diff_pos = 20000, surfaceTneg = 250, diff_neg = 0,
      T_con = [250], surfaceT = Some 250, counter = 1\<rparr>)
   \<and> \<not> (diff_pos \<lparr>surfaceTpos = 300, diff_pos = 20000, surfaceTneg = 250, diff_neg = 0,
      T_con = [250], surfaceT = Some 250, counter = 1\<rparr> < near_zero_of (slab 300)
       \<and> \<bar>diff_neg \<lparr>surfaceTpos = 300, diff_pos = 20000, surfaceTneg = 250, diff_neg = 0,
      T_con = [250], surfaceT = Some 250, counter = 1\<rparr>\<bar> < near_zero_of (slab 300))"
  using warm_adjustment warm_solve
  by (simp add: near_zero_of_def slab_fields)

subsection \<open>The bracket is kept\<close>




subsection \<open>The iteration cap\<close>

text \<open>
  C4, as amended. When the surface is not a fixed-temperature one, has a positive heat
  capacity and is not colder than the coldest level of the radiative profile, and the
  loop of \<open>convective_adjustment\<close> is entered, the call raises the \<open>ValueError\<close> exactly
  when the loop's condition still holds after 99 passes, whatever the hundredth pass
  finds; and a pass whose candidate makes the condition fail is one of the first 99, and
  the call returns that candidate.
\<close>

theorem search_raises_in_the_hundredth_pass:
  assumes cap: "0 < heat_capacity sf" and cold: "np_min (T_atm a) \<le> temperature sf"
    and nofix: "\<not> fixed_temperature sf"
    and step1: "\<not> snd (check_of ext a a_old h lapse sf (temperature sf)) < near_zero_of sf"
    and step2: "\<not> \<bar>heat_capacity sf * (np_min (T_atm a) - temperature sf)\<bar> < near_zero_of sf"
  shows "((convective_adjustment ext a a_old h lapse sf timestep
            = Some (Inl (ValueError ''No energy conserving convective profile can be found'')))
          = (\<exists>s. state_after (check_of ext a a_old h lapse sf) (near_zero_of sf) 99
                    (loop_entry ext a a_old h lapse sf) = Some s
                \<and> iterating (near_zero_of sf) s))
       \<and> (\<forall>k s. state_after (check_of ext a a_old h lapse sf) (near_zero_of sf) k
                    (loop_entry ext a a_old h lapse sf) = Some s
                \<and> \<not> iterating (near_zero_of sf) s \<longrightarrow>
              0 < k \<and> k \<le> 99
              \<and> (\<exists>t. surfaceT s = Some t
                    \<and> convective_adjustment ext a a_old h lapse sf timestep
                        = Some (Inr (T_con s, t))))"
proof -
  let ?check = "check_of ext a a_old h lapse sf"
  let ?nz = "near_zero_of sf"
  let ?s0 = "loop_entry ext a a_old h lapse sf"
  let ?raise = "Some (Inl (ValueError ''No energy conserving convective profile can be found''))
    :: (error + solver) option"
  note enters = convective_adjustment_enters_loop [OF nofix step1 step2]
  have c0: "counter ?s0 < 100" "counter ?s0 = 0"
    by (simp_all add: loop_entry_def)
  have returns: "0 < k \<and> k \<le> 99
      \<and> (\<exists>t. surfaceT s = Some t
            \<and> convective_adjustment ext a a_old h lapse sf timestep = Some (Inr (T_con s, t)))"
    if k: "state_after ?check ?nz k ?s0 = Some s" and stop: "\<not> iterating ?nz s" for k s
  proof -
    have pos: "0 < k"
    proof (rule ccontr)
      assume "\<not> 0 < k"
      with k have "s = ?s0" by simp
      with stop loop_entry_iterating [OF step1 step2] show False by simp
    qed
    have "counter s < 100" using c0(1) k by (rule state_after_below_cap)
    moreover have "counter s = k" using state_after_counter [OF k] c0(2) by simp
    ultimately have le: "k \<le> 99" by simp
    from stop have "solve ?check ?nz s = Some (Inr s)" by (subst solve.simps) simp
    with state_after_solve [OF k] have res: "solve ?check ?nz ?s0 = Some (Inr s)" by simp
    from k pos have "holds_last_check ?check ?nz s" by (rule state_after_holds_last_check)
    then obtain t where t: "surfaceT s = Some t"
      by (auto simp: holds_last_check_def split: option.splits)
    have "convective_adjustment ext a a_old h lapse sf timestep = Some (Inr (T_con s, t))"
      by (simp add: enters res t)
    with pos le t show ?thesis by blast
  qed
  have raises: "convective_adjustment ext a a_old h lapse sf timestep
      = Some (Inl (ValueError ''No energy conserving convective profile can be found''))"
    if k: "state_after ?check ?nz 99 ?s0 = Some s" and it: "iterating ?nz s" for s
  proof -
    from loop_state_bracket(2) [OF cap cold k it] have d: "- diff_neg s + diff_pos s \<noteq> 0"
      by simp
    have "counter s = 99" using state_after_counter [OF k] c0(2) by simp
    then have "counter (iteration ?check s) = 100" by (simp add: counter_iteration)
    with it d have "solve ?check ?nz s = ?raise" by (subst solve.simps) simp
    with state_after_solve [OF k] have "solve ?check ?nz ?s0 = ?raise" by simp
    then show ?thesis by (simp add: enters)
  qed
  have passes: "\<exists>s. state_after ?check ?nz 99 ?s0 = Some s \<and> iterating ?nz s"
    if r: "convective_adjustment ext a a_old h lapse sf timestep
      = Some (Inl (ValueError ''No energy conserving convective profile can be found''))"
  proof -
    from search_outcome [OF cap cold] obtain k s
      where k: "state_after ?check ?nz k ?s0 = Some s"
        and out: "if iterating ?nz s
                then k = 99 \<and> solve ?check ?nz ?s0 = ?raise
                else solve ?check ?nz ?s0 = Some (Inr s)"
      by blast
    have "iterating ?nz s"
    proof (rule ccontr)
      assume "\<not> iterating ?nz s"
      from returns [OF k this] r show False by auto
    qed
    with out k show ?thesis by auto
  qed
  from returns raises passes show ?thesis by blast
qed

theorem search_raises_in_the_hundredth_pass_witness:
  "state_after (check_of column_externals (column 299 0) (column 299 0) stepping_vmr [0]
       (slab 300)) (near_zero_of (slab 300)) 99
       (loop_entry column_externals (column 299 0) (column 299 0) stepping_vmr [0] (slab 300))
     = Some (stepping_pass 99)
   \<and> iterating (near_zero_of (slab 300)) (stepping_pass 99)
   \<and> convective_adjustment column_externals (column 299 0) (column 299 0) stepping_vmr [0]
        (slab 300) (1 / 10)
       = Some (Inl (ValueError ''No energy conserving convective profile can be found''))"
proof -
  have a: "state_after (check_of column_externals (column 299 0) (column 299 0) stepping_vmr [0]
       (slab 300)) (near_zero_of (slab 300)) 99
       (loop_entry column_externals (column 299 0) (column 299 0) stepping_vmr [0] (slab 300))
     = Some (stepping_pass 99)"
    using stepping_state_after [of 0 99] by (simp add: stepping_entry)
  have b: "iterating (near_zero_of (slab 300)) (stepping_pass 99)"
    by (rule stepping_iterating) simp
  from a b have "\<exists>s. state_after (check_of column_externals (column 299 0) (column 299 0)
       stepping_vmr [0] (slab 300)) (near_zero_of (slab 300)) 99
       (loop_entry column_externals (column 299 0) (column 299 0) stepping_vmr [0] (slab 300))
     = Some s \<and> iterating (near_zero_of (slab 300)) s"
    by blast
  then have "convective_adjustment column_externals (column 299 0) (column 299 0) stepping_vmr
        [0] (slab 300) (1 / 10)
       = Some (Inl (ValueError ''No energy conserving convective profile can be found''))"
    by (rule search_raises_in_the_hundredth_pass [OF stepping_guards, THEN conjunct1, THEN iffD2])
  with a b show ?thesis by (intro conjI)
qed

text \<open>C4 as stated fails when the hundredth pass is the one that converges. On the
  column \<open>column 299 0\<close> under the stepping humidity model the loop makes 99 passes
  without convergence; the hundredth pass proposes \<open>300 - 100/128\<close>, whose energy
  difference is zero, so the loop's condition fails after it: the search has converged
  within 100 iterations. The counter is 100 by then, and the call ends with the
  \<open>ValueError\<close> instead of returning that candidate. (All the proposals are multiples of
  1/128 between 299 and 300.)\<close>

theorem hundredth_pass_converges_and_raises_counterexample:
  "convective_adjustment column_externals (column 299 0) (column 299 0) stepping_vmr [0]
     (slab 300) (1 / 10)
     = Some (Inl (ValueError ''No energy conserving convective profile can be found''))
   \<and> state_after (check_of column_externals (column 299 0) (column 299 0) stepping_vmr [0]
       (slab 300)) (near_zero_of (slab 300)) 99
       (loop_entry column_externals (column 299 0) (column 299 0) stepping_vmr [0] (slab 300))
     = Some (stepping_pass 99)
   \<and> proposal (stepping_pass 99) = 300 - 100 / 128
   \<and> check_of column_externals (column 299 0) (column 299 0) stepping_vmr [0] (slab 300)
       (300 - 100 / 128) = ([300 - 100 / 128], 0)
   \<and> counter (iteration (check_of column_externals (column 299 0) (column 299 0) stepping_vmr
       [0] (slab 300)) (stepping_pass 99)) = 100
   \<and> \<not> iterating (near_zero_of (slab 300))
       (iteration (check_of column_externals (column 299 0) (column 299 0) stepping_vmr [0]
       (slab 300)) (stepping_pass 99))"
proof -
  have a: "convective_adjustment column_externals (column 299 0) (column 299 0) stepping_vmr [0]
     (slab 300) (1 / 10)
     = Some (Inl (ValueError ''No energy conserving convective profile can be found''))"
    by (simp add: convective_adjustment_enters_loop [OF stepping_guards(3,4,5)] stepping_entry
        stepping_solve)
  have b: "state_after (check_of column_externals (column 299 0) (column 299 0) stepping_vmr [0]
       (slab 300)) (near_zero_of (slab 300)) 99
       (loop_entry column_externals (column 299 0) (column 299 0) stepping_vmr [0] (slab 300))
     = Some (stepping_pass 99)"
    using stepping_state_after [of 0 99] by (simp add: stepping_entry)
  have c: "proposal (stepping_pass 99) = 300 - 100 / 128"
    using stepping_proposal [of 99] by simp
  have d: "check_of column_externals (column 299 0) (column 299 0) stepping_vmr [0] (slab 300)
       (300 - 100 / 128) = ([300 - 100 / 128], 0)"
    using stepping_check [of 100] by simp
  have e: "counter (iteration (check_of column_externals (column 299 0) (column 299 0)
       stepping_vmr [0] (slab 300)) (stepping_pass 99)) = 100"
    by (simp add: stepping_hundredth_iteration)
  have f: "\<not> iterating (near_zero_of (slab 300))
       (iteration (check_of column_externals (column 299 0) (column 299 0) stepping_vmr [0]
       (slab 300)) (stepping_pass 99))"
    by (simp add: stepping_hundredth_iteration iterating_def near_zero_of_def slab_fields)
  from a b c d e f show ?thesis by (intro conjI)
qed

subsection \<open>The entry point\<close>

text \<open>
  C2, at every input. \<open>stabilize\<close> passes \<open>T_old=T_old\<close> to \<open>convective_adjustment\<close>, and
  no name \<open>T_old\<close> is bound where the argument is evaluated: whatever the atmosphere, the
  humidity model, the lapse rate, the surface and the timestep, the call ends with a
  \<open>NameError\<close> before \<open>convective_adjustment\<close> is entered, and writes nothing.
\<close>

theorem stabilize_raises_name_error:
  "stabilize ext self a a_old h lapse sf timestep = Some (Inl (NameError ''T_old''))"
  by (simp add: stabilize_def stabilize_locals_def module_names_def)

subsection \<open>The diagnostics of the convective top: proofs\<close>

lemma heating_nth:
  "length T_c = length T_r \<Longrightarrow> i < length T_r \<Longrightarrow>
     map2 (\<lambda>c r. (c - r) / timestep) T_c T_r ! i = (T_c ! i - T_r ! i) / timestep"
  by simp

lemma store_convective_top_lookup:
  "store_convective_top a b c self ''convective_top_plev'' = Some [a]"
  "store_convective_top a b c self ''convective_top_temperature'' = Some [b]"
  "store_convective_top a b c self ''convective_top_index'' = Some [c]"
  "store_convective_top a b c self ''convective_heating_rate'' = self ''convective_heating_rate''"
  by (simp_all add: store_convective_top_def create_variable_def)

text \<open>
  C9. For a radiative and an adjusted profile of one length and a timestep other than
  zero, when the convective heating rate \<open>(T_con - T_rad) / timestep\<close> exceeds the
  threshold at no level, \<open>update_convective_top\<close> raises nothing and stores \<open>nan\<close> as the
  pressure, the temperature and the index of the convective top (and the heating rates
  as they are).
\<close>

theorem no_heating_gives_undefined_top:
  assumes ts: "timestep \<noteq> 0" and len: "length T_c = length T_rad"
    and cool: "\<forall>i<length T_rad. \<not> (T_c ! i - T_rad ! i) / timestep > lim'"
  shows "fst (update_convective_top self T_rad T_c p timestep lim') = None
       \<and> snd (update_convective_top self T_rad T_c p timestep lim') ''convective_top_plev''
           = Some [NaN]
       \<and> snd (update_convective_top self T_rad T_c p timestep lim') ''convective_top_temperature''
           = Some [NaN]
       \<and> snd (update_convective_top self T_rad T_c p timestep lim') ''convective_top_index''
           = Some [NaN]
       \<and> snd (update_convective_top self T_rad T_c p timestep lim') ''convective_heating_rate''
           = Some (map Num (map2 (\<lambda>c r. (c - r) / timestep) T_c T_rad))"
proof -
  let ?H = "map2 (\<lambda>c r. (c - r) / timestep) T_c T_rad"
  have "\<not> np_any (map (\<lambda>h. h > lim') ?H)"
    using cool len by (simp add: np_any_iff)
  then have "update_convective_top self T_rad T_c p timestep lim' =
      (None, store_convective_top NaN NaN NaN
               (create_variable ''convective_heating_rate'' (map Num ?H) self))"
    using ts by (simp add: update_convective_top_def Let_def)
  then show ?thesis
    by (simp add: store_convective_top_lookup) (simp add: create_variable_def)
qed

theorem no_heating_gives_undefined_top_witness:
  "fst (update_convective_top Map.empty [300, 250, 220] [300, 250, 220] [900, 500, 100]
          (1 / 10) (2 / 10)) = None
   \<and> snd (update_convective_top Map.empty [300, 250, 220] [300, 250, 220] [900, 500, 100]
          (1 / 10) (2 / 10)) ''convective_top_plev'' = Some [NaN]
   \<and> snd (update_convective_top Map.empty [300, 250, 220] [300, 250, 220] [900, 500, 100]
          (1 / 10) (2 / 10)) ''convective_top_temperature'' = Some [NaN]
   \<and> snd (update_convective_top Map.empty [300, 250, 220] [300, 250, 220] [900, 500, 100]
          (1 / 10) (2 / 10)) ''convective_top_index'' = Some [NaN]"
proof -
  have ts: "(1 / 10 :: real) \<noteq> 0" by simp
  have len: "length [300, 250, 220 :: real] = length [300, 250, 220 :: real]" by simp
  have cool: "\<forall>i<length [300, 250, 220 :: real].
      \<not> ([300, 250, 220] ! i - [300, 250, 220 :: real] ! i) / (1 / 10) > 2 / 10"
    by (simp add: All_less_Suc)
  from no_heating_gives_undefined_top [OF ts len cool, of Map.empty "[900, 500, 100]"]
  show ?thesis by (intro conjI) (elim conjE, assumption)+
qed

subsection \<open>Heating that does not fall back below the threshold\<close>

lemma np_argmax_none: "\<not> np_any bs \<Longrightarrow> np_argmax bs = 0"
  by (cases bs) (simp_all add: np_any_def)

lemma np_argmax_first: "bs \<noteq> [] \<Longrightarrow> bs ! 0 \<Longrightarrow> np_argmax bs = 0"
  by (cases bs) simp_all

lemma py_index_first: "xs \<noteq> [] \<Longrightarrow> py_index xs 0 = Inr (xs ! 0)"
  by (simp add: py_index_def)

lemma py_index_wraps: "xs \<noteq> [] \<Longrightarrow> py_index xs (- 1) = Inr (last xs)"
proof -
  assume ne: "xs \<noteq> []"
  then have pos: "Suc 0 \<le> length xs"
    by (cases xs) simp_all
  then have "nat (int (length xs) - 1) = length xs - 1" by simp
  with ne pos show ?thesis
    by (simp add: py_index_def last_conv_nth)
qed

lemma interp1d_below:
  "x_new < h_0 \<Longrightarrow> x_new < h_1 \<Longrightarrow>
     interp1d (h_0, h_1) v x_new =
       Inl (ValueError ''A value in x_new is below the interpolation range.'')"
  by (simp add: interp1d_def)

lemma never_below_indices:
  assumes ne: "H \<noteq> []" and first: "lim' < H ! 0" and never: "\<forall>i<length H. \<not> H ! i < lim'"
  shows "positive_i H lim' = 0" and "contop_index H lim' = 0"
proof -
  show p: "positive_i H lim' = 0"
    unfolding positive_i_def using ne first by (intro np_argmax_first) simp_all
  have "\<not> np_any (map (\<lambda>h. h < lim') H)"
    using never by (simp add: np_any_iff)
  then show "contop_index H lim' = 0"
    by (simp add: contop_index_def p np_argmax_none)
qed

lemma interp_variable_wraps:
  assumes ne: "H \<noteq> []" and len: "length v = length H"
    and first: "lim' < H ! 0" and never: "\<forall>i<length H. \<not> H ! i < lim'"
    and top: "lim' < last H"
  shows "interp_variable v H lim' =
     Inl (ValueError ''A value in x_new is below the interpolation range.'')"
proof -
  from ne len have nv: "v \<noteq> []" by auto
  have i: "contop_index H lim' = 0"
    using ne first never by (rule never_below_indices)
  show ?thesis
    using ne top first
    by (simp add: interp_variable_def i py_index_first py_index_wraps nv interp1d_below)
qed

text \<open>
  C10, as amended. There are heating rates that exceed the threshold somewhere and do
  not fall back below it at or above the first exceedance. When the first exceedance is
  at index 0 and the last level is above the threshold too, \<open>contop_index\<close> is 0, the
  index \<open>contop_index - 1 = -1\<close> wraps to the last level, the bracketing pair lies above
  the threshold, and \<open>interp_variable\<close>, and with it \<open>update_convective_top\<close>, raises
  scipy's range error instead of storing the undefined value.
\<close>

theorem heating_up_to_the_top_raises:
  assumes ts: "timestep \<noteq> 0"
    and ne: "T_rad \<noteq> []" and len: "length T_c = length T_rad" "length p = length T_rad"
    and first: "lim' < (T_c ! 0 - T_rad ! 0) / timestep"
    and never: "\<forall>i<length T_rad. \<not> (T_c ! i - T_rad ! i) / timestep < lim'"
    and top: "lim' < (last T_c - last T_rad) / timestep"
  shows "positive_i (map2 (\<lambda>c r. (c - r) / timestep) T_c T_rad) lim' = 0
       \<and> contop_index (map2 (\<lambda>c r. (c - r) / timestep) T_c T_rad) lim' = 0
       \<and> py_index (map2 (\<lambda>c r. (c - r) / timestep) T_c T_rad)
            (int (contop_index (map2 (\<lambda>c r. (c - r) / timestep) T_c T_rad) lim') - 1)
           = Inr ((last T_c - last T_rad) / timestep)
       \<and> interp_variable p (map2 (\<lambda>c r. (c - r) / timestep) T_c T_rad) lim'
           = Inl (ValueError ''A value in x_new is below the interpolation range.'')
       \<and> fst (update_convective_top self T_rad T_c p timestep lim')
           = Some (ValueError ''A value in x_new is below the interpolation range.'')"
proof -
  let ?H = "map2 (\<lambda>c r. (c - r) / timestep) T_c T_rad"
  have lH: "length ?H = length T_rad" using len by simp
  have neH: "?H \<noteq> []" using ne lH by (metis length_0_conv)
  have nc: "T_c \<noteq> []" using ne len(1) by auto
  have H0: "?H ! 0 = (T_c ! 0 - T_rad ! 0) / timestep"
    using ne len by (simp add: heating_nth)
  have Hl: "last ?H = (last T_c - last T_rad) / timestep"
    using ne nc len(1) lH neH by (simp add: last_conv_nth heating_nth)
  have f: "lim' < ?H ! 0" using first by (simp only: H0)
  have n: "\<forall>i<length ?H. \<not> ?H ! i < lim'"
    using never len by simp
  have t: "lim' < last ?H" using top by (simp only: Hl)
  have pi: "positive_i ?H lim' = 0" and ci: "contop_index ?H lim' = 0"
    using neH f n by (rule never_below_indices)+
  have wrap: "py_index ?H (int (contop_index ?H lim') - 1) = Inr ((last T_c - last T_rad) / timestep)"
    using neH by (simp only: ci Hl [symmetric]) (simp add: py_index_wraps)
  have lp: "length p = length ?H" using len by simp
  have iv: "interp_variable p ?H lim' =
      Inl (ValueError ''A value in x_new is below the interpolation range.'')"
    using neH lp f n t by (rule interp_variable_wraps)
  have any: "np_any (map (\<lambda>h. h > lim') ?H)"
    using f neH by (auto simp: np_any_iff simp del: map_eq_conv)
  have "update_convective_top self T_rad T_c p timestep lim' =
      (Some (ValueError ''A value in x_new is below the interpolation range.''),
       create_variable ''convective_heating_rate'' (map Num ?H) self)"
    using ts any by (simp add: update_convective_top_def Let_def iv)
  then have u: "fst (update_convective_top self T_rad T_c p timestep lim')
           = Some (ValueError ''A value in x_new is below the interpolation range.'')"
    by simp
  from pi ci wrap iv u show ?thesis by (intro conjI)
qed

theorem heating_up_to_the_top_raises_witness:
  "positive_i (map2 (\<lambda>c r. (c - r) / 1) [301, 251, 221] [300, 250, 220]) (1 / 5) = 0
   \<and> contop_index (map2 (\<lambda>c r. (c - r) / 1) [301, 251, 221] [300, 250, 220]) (1 / 5) = 0
   \<and> interp_variable [900, 500, 100]
        (map2 (\<lambda>c r. (c - r) / 1) [301, 251, 221] [300, 250, 220]) (1 / 5)
       = Inl (ValueError ''A value in x_new is below the interpolation range.'')
   \<and> fst (update_convective_top Map.empty [300, 250, 220] [301, 251, 221] [900, 500, 100] 1
          (1 / 5))
       = Some (ValueError ''A value in x_new is below the interpolation range.'')"
proof -
  have ts: "(1::real) \<noteq> 0" by simp
  have ne: "[300, 250, 220 :: real] \<noteq> []" by simp
  have len: "length [301, 251, 221 :: real] = length [300, 250, 220 :: real]"
    "length [900, 500, 100 :: real] = length [300, 250, 220 :: real]"
    by simp_all
  have first: "1 / 5 < ([301, 251, 221] ! 0 - [300, 250, 220 :: real] ! 0) / 1"
    by simp
  have never: "\<forall>i<length [300, 250, 220 :: real].
      \<not> ([301, 251, 221] ! i - [300, 250, 220 :: real] ! i) / 1 < 1 / 5"
    by (simp add: All_less_Suc)
  have top: "1 / 5 < (last [301, 251, 221] - last [300, 250, 220 :: real]) / 1"
    by simp
  from heating_up_to_the_top_raises [OF ts ne len first never top, of Map.empty]
  show ?thesis by (intro conjI) (elim conjE, assumption)+
qed

text \<open>C10 as stated fails when the first exceedance is at a later index: for the
  heating rates \<open>[0, 1, 1]\<close> and the threshold \<open>1/5\<close> the heating never falls back below
  the threshold from index 1 on, yet the bracketing pair is \<open>(0, 1)\<close>, which straddles
  the threshold, and the diagnostics are computed (a pressure of 820).\<close>

theorem later_exceedance_straddles_counterexample:
  "positive_i [0, 1, 1] (1 / 5) = 1
   \<and> \<not> [0, 1, 1 :: real] ! 1 < 1 / 5
   \<and> \<not> [0, 1, 1 :: real] ! 2 < 1 / 5
   \<and> contop_index [0, 1, 1] (1 / 5) = 1
   \<and> py_index [0, 1, 1 :: real] (int (contop_index [0, 1, 1] (1 / 5)) - 1) = Inr 0
   \<and> py_index [0, 1, 1 :: real] (int (contop_index [0, 1, 1] (1 / 5))) = Inr 1
   \<and> interp_variable [900, 500, 100] [0, 1, 1] (1 / 5) = Inr 820
   \<and> map2 (\<lambda>c r. (c - r) / 1) [300, 251, 221] [300, 250, 220] = [0, 1, 1 :: real]
   \<and> fst (update_convective_top Map.empty [300, 250, 220] [300, 251, 221] [900, 500, 100] 1
          (1 / 5)) = None
   \<and> snd (update_convective_top Map.empty [300, 250, 220] [300, 251, 221] [900, 500, 100] 1
          (1 / 5)) ''convective_top_plev'' = Some [Num 820]"
proof -
  have p: "positive_i [0, 1, 1] (1 / 5) = 1"
    by (simp add: positive_i_def np_any_def)
  have c: "contop_index [0, 1, 1] (1 / 5) = 1"
    by (simp add: contop_index_def p np_any_def)
  have i0: "py_index [0, 1, 1 :: real] 0 = Inr 0" and i1: "py_index [0, 1, 1 :: real] 1 = Inr 1"
    by (simp_all add: py_index_def)
  have iv: "interp_variable v [0, 1, 1] (1 / 5) =
      (case (py_index v 0, py_index v 1) of
         (Inr v_0, Inr v_1) \<Rightarrow> interp1d (0, 1) (v_0, v_1) (1 / 5)
       | _ \<Rightarrow> Inl IndexError)" for v
    by (simp add: interp_variable_def c i0 i1 split: sum.splits)
  have ip: "interp_variable [900, 500, 100] [0, 1, 1] (1 / 5) = Inr 820"
    by (simp add: iv py_index_def interp1d_def)
  have iT: "interp_variable [300, 251, 221] [0, 1, 1] (1 / 5) = Inr (1451 / 5)"
    by (simp add: iv py_index_def interp1d_def)
  have ii: "interp_variable [0, 1, 2] [0, 1, 1] (1 / 5) = Inr (1 / 5)"
    by (simp add: iv py_index_def interp1d_def)
  have H: "map2 (\<lambda>c r. (c - r) / 1) [300, 251, 221] [300, 250, 220] = [0, 1, 1 :: real]"
    by simp
  have u: "update_convective_top Map.empty [300, 250, 220] [300, 251, 221] [900, 500, 100] 1
      (1 / 5) =
      (None, store_convective_top (Num 820) (Num (1451 / 5)) (Num (1 / 5))
               (create_variable ''convective_heating_rate'' (map Num [0, 1, 1]) Map.empty))"
    unfolding update_convective_top_def Let_def H
    by (simp add: ip iT ii np_any_def)
  show ?thesis
    unfolding u
    by (simp add: p c i0 i1 ip store_convective_top_lookup)
qed

subsection \<open>The relaxed adjustment for long timesteps\<close>

lemma exp_decay:
  assumes "0 < tau"
  shows "((\<lambda>timestep. exp (- timestep / tau)) \<longlongrightarrow> (0::real)) at_top"
proof -
  have "LIM timestep at_top. (1 / tau) * timestep :> at_top"
    using assms by (intro filterlim_tendsto_pos_mult_at_top [OF tendsto_const]) (simp_all add: filterlim_ident)
  then have "LIM timestep at_top. - ((1 / tau) * timestep) :> at_bot"
    by (simp add: filterlim_uminus_at_top)
  then have "((\<lambda>timestep. exp (- ((1 / tau) * timestep))) \<longlongrightarrow> 0) at_top"
    by (rule filterlim_compose [OF exp_at_bot])
  then show ?thesis by simp
qed

lemma relaxed_nth:
  assumes "p \<noteq> []" "length lp = length p" "length T_rad = length p"
    "length (get_convective_tau ctau p) = length p" "i < length p"
  shows "relaxed_convective_profile ctau T_rad p ph sT lp timestep ! i =
     T_rad ! i * (1 - (1 - exp (- timestep / get_convective_tau ctau p ! i)))
     + (1 - exp (- timestep / get_convective_tau ctau p ! i)) * lapse_integral p ph sT lp ! i"
  using assms length_lapse_integral [OF assms(1,2), of ph sT]
  by (simp add: relaxed_convective_profile_def Let_def)

lemma relaxed_tends_to_lapse_integral:
  assumes "p \<noteq> []" "length lp = length p" "length T_rad = length p"
    "length (get_convective_tau ctau p) = length p" "i < length p"
    and pos: "0 < get_convective_tau ctau p ! i"
  shows "((\<lambda>timestep. relaxed_convective_profile ctau T_rad p ph sT lp timestep ! i)
           \<longlongrightarrow> lapse_integral p ph sT lp ! i) at_top"
proof -
  let ?tau = "get_convective_tau ctau p ! i"
  let ?c = "lapse_integral p ph sT lp ! i"
  have "((\<lambda>timestep. T_rad ! i * (1 - (1 - exp (- timestep / ?tau)))
            + (1 - exp (- timestep / ?tau)) * ?c)
          \<longlongrightarrow> T_rad ! i * (1 - (1 - 0)) + (1 - 0) * ?c) at_top"
    by (intro tendsto_intros exp_decay [OF pos])
  then show ?thesis
    by (simp add: relaxed_nth [OF assms(1-5)])
qed

lemma convective_profile_levels:
  assumes "p \<noteq> []" "length lp = length p" "length T_rad = length p"
    and k: "k < length p" and hot: "lapse_integral p ph sT lp ! k > T_rad ! k"
    and top: "\<forall>j<length p. k < j \<longrightarrow> \<not> lapse_integral p ph sT lp ! j > T_rad ! j"
    and i: "i < length p"
  shows "convective_profile T_rad p ph sT lp ! i =
     (if i \<le> k then lapse_integral p ph sT lp ! i else T_rad ! i)"
proof -
  define c where "c = lapse_integral p ph sT lp"
  define w where "w = map2 (\<lambda>c r. c > r) c T_rad"
  have lc: "length c = length p"
    unfolding c_def using assms(1,2) by (rule length_lapse_integral)
  have lw: "length w = length p"
    by (simp add: w_def lc assms(3))
  have wn: "w ! j = (c ! j > T_rad ! j)" if "j < length p" for j
    using that by (simp add: w_def lc assms(3))
  have any: "np_any w" using k hot by (auto simp: np_any_iff lw wn c_def)
  have "np_max (np_where w) = k"
  proof (rule np_max_where_highest)
    show "k < length w" using k by (simp add: lw)
    show "w ! k" using k hot by (simp add: wn c_def)
    show "\<forall>j<length w. k < j \<longrightarrow> \<not> w ! j" using top by (simp add: lw wn c_def)
  qed
  with any have "convective_profile T_rad p ph sT lp = take (k + 1) c @ drop (k + 1) T_rad"
    by (simp add: convective_profile_def c_def w_def Let_def)
  then show ?thesis
    using i k by (auto simp: nth_append lc assms(3) c_def [symmetric])
qed

lemma convective_profile_stable:
  assumes "p \<noteq> []" "length lp = length p" "length T_rad = length p"
    and cool: "\<forall>j<length p. \<not> lapse_integral p ph sT lp ! j > T_rad ! j"
  shows "convective_profile T_rad p ph sT lp = T_rad"
proof -
  have "length (lapse_integral p ph sT lp) = length p"
    using assms(1,2) by (rule length_lapse_integral)
  with cool assms(3) have "\<not> np_any (map2 (\<lambda>c r. c > r) (lapse_integral p ph sT lp) T_rad)"
    by (simp add: np_any_iff)
  then show ?thesis
    by (simp add: convective_profile_def Let_def)
qed

lemma tends_to_other_value:
  fixes f :: "real \<Rightarrow> real"
  assumes "(f \<longlongrightarrow> c) at_top"
  shows "((f \<longlongrightarrow> d) at_top) = (d = c)"
proof
  assume "(f \<longlongrightarrow> d) at_top"
  from this assms show "d = c"
    by (rule tendsto_unique [OF trivial_limit_at_top_linorder])
next
  assume "d = c"
  with assms show "(f \<longlongrightarrow> d) at_top" by simp
qed

text \<open>
  C7, as amended. For arrays of one grid and positive convective timescales, as the
  timestep grows without bound (so that \<open>timestep / tau\<close> does at every level), the
  profile of the relaxed adjustment converges at every level to the lapse-rate integral
  \<open>surfaceT - cumsum(dp * lp)\<close>, the candidate of the hard adjustment before it is clipped.
  So it converges to the profile of the hard adjustment at a level exactly when that
  profile is the integral there: at every level up to and including the highest level
  where the integral exceeds the radiative profile, and at a level above it, or at any
  level when the integral exceeds the radiative profile nowhere, only when the integral
  equals the radiative value there.
\<close>

theorem relaxed_limit_is_the_lapse_integral:
  assumes "p \<noteq> []" "length lp = length p" "length T_rad = length p"
    "length (get_convective_tau ctau p) = length p"
    and pos: "\<forall>t\<in>set (get_convective_tau ctau p). 0 < t"
    and i: "i < length p"
  shows "((\<lambda>timestep. relaxed_convective_profile ctau T_rad p ph sT lp timestep ! i)
           \<longlongrightarrow> lapse_integral p ph sT lp ! i) at_top
       \<and> (((\<lambda>timestep. relaxed_convective_profile ctau T_rad p ph sT lp timestep ! i)
              \<longlongrightarrow> convective_profile T_rad p ph sT lp ! i) at_top
            = (convective_profile T_rad p ph sT lp ! i = lapse_integral p ph sT lp ! i))
       \<and> (\<forall>k<length p.
            lapse_integral p ph sT lp ! k > T_rad ! k
            \<and> (\<forall>j<length p. k < j \<longrightarrow> \<not> lapse_integral p ph sT lp ! j > T_rad ! j) \<longrightarrow>
            (i \<le> k \<longrightarrow>
               ((\<lambda>timestep. relaxed_convective_profile ctau T_rad p ph sT lp timestep ! i)
                  \<longlongrightarrow> convective_profile T_rad p ph sT lp ! i) at_top)
            \<and> (k < i \<longrightarrow>
               ((\<lambda>timestep. relaxed_convective_profile ctau T_rad p ph sT lp timestep ! i)
                  \<longlongrightarrow> convective_profile T_rad p ph sT lp ! i) at_top
               = (T_rad ! i = lapse_integral p ph sT lp ! i)))
       \<and> ((\<forall>j<length p. \<not> lapse_integral p ph sT lp ! j > T_rad ! j) \<longrightarrow>
            ((\<lambda>timestep. relaxed_convective_profile ctau T_rad p ph sT lp timestep ! i)
               \<longlongrightarrow> convective_profile T_rad p ph sT lp ! i) at_top
            = (T_rad ! i = lapse_integral p ph sT lp ! i))"
proof -
  let ?r = "\<lambda>timestep. relaxed_convective_profile ctau T_rad p ph sT lp timestep ! i"
  from pos i assms(4) have "0 < get_convective_tau ctau p ! i"
    by (simp add: all_set_conv_all_nth)
  with assms(1-4) i have lim: "(?r \<longlongrightarrow> lapse_integral p ph sT lp ! i) at_top"
    by (rule relaxed_tends_to_lapse_integral)
  note other = tends_to_other_value [OF lim]
  have hard: "(?r \<longlongrightarrow> convective_profile T_rad p ph sT lp ! i) at_top
      = (convective_profile T_rad p ph sT lp ! i = lapse_integral p ph sT lp ! i)"
    by (rule other)
  have below: "(?r \<longlongrightarrow> convective_profile T_rad p ph sT lp ! i) at_top"
    if "k < length p" "lapse_integral p ph sT lp ! k > T_rad ! k"
      "\<forall>j<length p. k < j \<longrightarrow> \<not> lapse_integral p ph sT lp ! j > T_rad ! j" "i \<le> k" for k
    using convective_profile_levels [OF assms(1-3) that(1-3) i] that(4) lim by simp
  have above: "(?r \<longlongrightarrow> convective_profile T_rad p ph sT lp ! i) at_top
      = (T_rad ! i = lapse_integral p ph sT lp ! i)"
    if "k < length p" "lapse_integral p ph sT lp ! k > T_rad ! k"
      "\<forall>j<length p. k < j \<longrightarrow> \<not> lapse_integral p ph sT lp ! j > T_rad ! j" "k < i" for k
    using convective_profile_levels [OF assms(1-3) that(1-3) i] that(4) other by simp
  have stable: "(?r \<longlongrightarrow> convective_profile T_rad p ph sT lp ! i) at_top
      = (T_rad ! i = lapse_integral p ph sT lp ! i)"
    if "\<forall>j<length p. \<not> lapse_integral p ph sT lp ! j > T_rad ! j"
    using convective_profile_stable [OF assms(1-3) that] other by simp
  from lim hard below above stable show ?thesis by blast
qed

theorem relaxed_limit_is_the_lapse_integral_witness:
  "((\<lambda>timestep. relaxed_convective_profile (Some [1, 1, 1]) [300, 250, 220] [900, 500, 100]
        [1000, 700, 300, 50] 305 [- (1 / 10), - (1 / 10), - (1 / 10)] timestep ! 1)
      \<longlongrightarrow> convective_profile [300, 250, 220] [900, 500, 100] [1000, 700, 300, 50] 305
            [- (1 / 10), - (1 / 10), - (1 / 10)] ! 1) at_top
   \<and> lapse_integral [900, 500, 100] [1000, 700, 300, 50] 305
        [- (1 / 10), - (1 / 10), - (1 / 10)] = [295, 255, 215]"
proof -
  let ?p = "[900, 500, 100] :: real list"
  let ?ph = "[1000, 700, 300, 50] :: real list"
  let ?T = "[300, 250, 220] :: real list"
  let ?lp = "[- (1 / 10), - (1 / 10), - (1 / 10)] :: real list"
  have li: "lapse_integral ?p ?ph 305 ?lp = [295, 255, 215]"
    by (simp add: lapse_integral_def dp_lapse_def np_cumsum_def)
  have shape: "?p \<noteq> []" "length ?lp = length ?p" "length ?T = length ?p"
    "length (get_convective_tau (Some [1, 1, 1]) ?p) = length ?p"
    by (simp_all add: get_convective_tau_def)
  have pos: "\<forall>t\<in>set (get_convective_tau (Some [1, 1, 1]) ?p). 0 < t"
    by (simp add: get_convective_tau_def)
  have i: "1 < length ?p" by simp
  note top = relaxed_limit_is_the_lapse_integral [OF shape pos i, of ?ph 305,
      THEN conjunct2, THEN conjunct2, THEN conjunct1, rule_format, of 1, THEN conjunct1,
      rule_format]
  have "((\<lambda>timestep. relaxed_convective_profile (Some [1, 1, 1]) ?T ?p ?ph 305 ?lp timestep ! 1)
      \<longlongrightarrow> convective_profile ?T ?p ?ph 305 ?lp ! 1) at_top"
    by (rule top) (simp_all add: li All_less_Suc)
  from this li show ?thesis by (rule conjI)
qed

lemma stable_column_limit:
  "((\<lambda>timestep. relaxed_convective_profile (Some [1]) [300] [900] [1000, 800] 290 [0] timestep ! 0)
      \<longlongrightarrow> 290) at_top"
proof -
  have l: "lapse_integral [900] [1000, 800] 290 [0] ! 0 = 290"
    by (simp add: lapse_integral_def dp_lapse_def np_cumsum_def)
  have "((\<lambda>timestep. relaxed_convective_profile (Some [1]) [300] [900] [1000, 800] 290 [0]
            timestep ! 0)
      \<longlongrightarrow> lapse_integral [900] [1000, 800] 290 [0] ! 0) at_top"
    by (rule relaxed_tends_to_lapse_integral) (simp_all add: get_convective_tau_def)
  then show ?thesis by (simp only: l)
qed

text \<open>C7 as stated fails on a stable column: under a surface at 290 the hard adjustment
  returns the radiative 300, while the relaxed profile tends to the integral's 290.\<close>

theorem relaxed_limit_is_not_the_hard_profile_counterexample:
  "\<not> ((\<lambda>timestep. relaxed_convective_profile (Some [1]) [300] [900] [1000, 800] 290 [0]
            timestep ! 0)
        \<longlongrightarrow> convective_profile [300] [900] [1000, 800] 290 [0] ! 0) at_top"
proof
  assume "((\<lambda>timestep. relaxed_convective_profile (Some [1]) [300] [900] [1000, 800] 290 [0]
            timestep ! 0)
        \<longlongrightarrow> convective_profile [300] [900] [1000, 800] 290 [0] ! 0) at_top"
  then have "((\<lambda>timestep. relaxed_convective_profile (Some [1]) [300] [900] [1000, 800] 290 [0]
            timestep ! 0) \<longlongrightarrow> 300) at_top"
    by (simp add: column_profile)
  with stable_column_limit have "(290::real) = 300"
    by (rule tendsto_unique [OF trivial_limit_at_top_linorder])
  then show False by simp
qed

subsection \<open>The reference of the latent term\<close>

lemma latent_heat_difference_sums:
  "length x = length y \<Longrightarrow>
     latent_heat_difference Lv x y = Lv * (sum_list x - sum_list y)"
proof (induction x y rule: list_induct2)
  case Nil
  show ?case by (simp add: latent_heat_difference_def np_sum_def)
next
  case (Cons a x b y)
  then show ?case
    by (simp add: latent_heat_difference_def np_sum_def algebra_simps)
qed

text \<open>
  C8, as amended. The energy difference of \<open>create_and_check_profile\<close> is the dry
  difference of the candidate against the radiative temperatures of the current
  atmosphere plus the latent difference of the candidate's water vapour against the water
  vapour of \<open>atmosphere_old\<close>, the atmosphere of the previous timestep. For water vapour
  arrays of one length it exceeds the difference that takes both references from the
  current atmosphere by \<open>Lv\<close> times the water vapour the column gained since the
  previous timestep.
\<close>

theorem latent_reference_is_previous_timestep:
  assumes "length (water_vapour_profile ext a_old) = n"
    and "length (water_vapour_profile ext a) = n"
    and "length (water_vapour_profile ext
           (update_temporary_atmosphere ext a
              (convective_profile (T_atm a) (plev a) (phlev a) sT lp) h)) = n"
  shows "snd (create_and_check_profile ext a a_old h sf sT lp) =
           energy_difference_dry (const_g ext)
             (convective_profile (T_atm a) (plev a) (phlev a) sT lp) (T_atm a) sT
             (temperature sf) (phlev a) (get_heat_capacity ext a) (heat_capacity sf)
           + latent_heat_difference (const_Lv ext)
               (water_vapour_profile ext
                  (update_temporary_atmosphere ext a
                     (convective_profile (T_atm a) (plev a) (phlev a) sT lp) h))
               (water_vapour_profile ext a_old)
       \<and> snd (create_and_check_profile ext a a_old h sf sT lp) =
           energy_difference_from_radiative_state ext a h sf sT lp
           + const_Lv ext * (sum_list (water_vapour_profile ext a)
                             - sum_list (water_vapour_profile ext a_old))"
proof -
  let ?T = "convective_profile (T_atm a) (plev a) (phlev a) sT lp"
  let ?new = "water_vapour_profile ext (update_temporary_atmosphere ext a ?T h)"
  have code: "snd (create_and_check_profile ext a a_old h sf sT lp) =
      energy_difference_dry (const_g ext) ?T (T_atm a) sT (temperature sf) (phlev a)
        (get_heat_capacity ext a) (heat_capacity sf)
      + latent_heat_difference (const_Lv ext) ?new (water_vapour_profile ext a_old)"
    by (simp add: create_and_check_profile_def Let_def)
  have spec: "energy_difference_from_radiative_state ext a h sf sT lp =
      energy_difference_dry (const_g ext) ?T (T_atm a) sT (temperature sf) (phlev a)
        (get_heat_capacity ext a) (heat_capacity sf)
      + latent_heat_difference (const_Lv ext) ?new (water_vapour_profile ext a)"
    by (simp add: energy_difference_from_radiative_state_def Let_def)
  have old: "latent_heat_difference (const_Lv ext) ?new (water_vapour_profile ext a_old) =
      const_Lv ext * (sum_list ?new - sum_list (water_vapour_profile ext a_old))"
    using assms(1,3) by (intro latent_heat_difference_sums) simp
  have cur: "latent_heat_difference (const_Lv ext) ?new (water_vapour_profile ext a) =
      const_Lv ext * (sum_list ?new - sum_list (water_vapour_profile ext a))"
    using assms(2,3) by (intro latent_heat_difference_sums) simp
  have "snd (create_and_check_profile ext a a_old h sf sT lp) =
           energy_difference_from_radiative_state ext a h sf sT lp
           + const_Lv ext * (sum_list (water_vapour_profile ext a)
                             - sum_list (water_vapour_profile ext a_old))"
    unfolding code spec old cur by (simp add: algebra_simps)
  with code show ?thesis by (rule conjI)
qed

lemma column_vapour:
  "water_vapour_profile column_externals (column T h) = [h]"
  by (simp add: water_vapour_profile_def column_externals_def column_def)

lemma column_candidate_vapour:
  "water_vapour_profile column_externals
     (update_temporary_atmosphere column_externals (column T h) [t] fixed_vmr) = [h]"
  by (simp add: water_vapour_profile_def update_temporary_atmosphere_def column_externals_def
      column_def fixed_vmr_def)

lemma moist_column_from_radiative_state:
  "energy_difference_from_radiative_state column_externals (column 300 (1 / 100)) fixed_vmr
     (slab 300) 300 [0] = 0"
  by (simp add: energy_difference_from_radiative_state_def Let_def column_fields slab_fields
      column_profile column_vapour column_candidate_vapour latent_heat_difference_def
      energy_difference_dry_def np_sum_def)
     (simp add: column_externals_def)

lemma moist_column_check:
  "snd (create_and_check_profile column_externals (column 300 (1 / 100)) (column 300 0)
          fixed_vmr (slab 300) 300 [0]) = 25000"
  using column_check_fixed [of 300 "1 / 100" 300 0 300 300]
  by (simp add: check_of_def column_lapse)

theorem latent_reference_is_previous_timestep_witness:
  "snd (create_and_check_profile column_externals (column 300 (1 / 100)) (column 300 0)
          fixed_vmr (slab 300) 300 [0])
     = energy_difference_from_radiative_state column_externals (column 300 (1 / 100)) fixed_vmr
         (slab 300) 300 [0]
       + const_Lv column_externals
           * (sum_list (water_vapour_profile column_externals (column 300 (1 / 100)))
              - sum_list (water_vapour_profile column_externals (column 300 0)))
   \<and> const_Lv column_externals
           * (sum_list (water_vapour_profile column_externals (column 300 (1 / 100)))
              - sum_list (water_vapour_profile column_externals (column 300 0))) = 25000"
proof -
  have "snd (create_and_check_profile column_externals (column 300 (1 / 100)) (column 300 0)
          fixed_vmr (slab 300) 300 [0])
     = energy_difference_from_radiative_state column_externals (column 300 (1 / 100)) fixed_vmr
         (slab 300) 300 [0]
       + const_Lv column_externals
           * (sum_list (water_vapour_profile column_externals (column 300 (1 / 100)))
              - sum_list (water_vapour_profile column_externals (column 300 0)))"
    by (rule latent_reference_is_previous_timestep [where n = 1, THEN conjunct2])
       (simp_all add: column_fields column_profile column_vapour column_candidate_vapour)
  moreover have "const_Lv column_externals
           * (sum_list (water_vapour_profile column_externals (column 300 (1 / 100)))
              - sum_list (water_vapour_profile column_externals (column 300 0))) = 25000"
    by (simp add: column_vapour) (simp add: column_externals_def)
  ultimately show ?thesis by (rule conjI)
qed

text \<open>C8 as stated fails on a column that holds more water vapour than at the previous
  timestep: for a candidate equal to the radiative state the difference taken from the
  radiative state is zero, the one the code computes is 25000.\<close>

theorem latent_reference_counterexample:
  "snd (create_and_check_profile column_externals (column 300 (1 / 100)) (column 300 0)
          fixed_vmr (slab 300) 300 [0]) = 25000
   \<and> energy_difference_from_radiative_state column_externals (column 300 (1 / 100)) fixed_vmr
        (slab 300) 300 [0] = 0
   \<and> snd (create_and_check_profile column_externals (column 300 (1 / 100)) (column 300 0)
          fixed_vmr (slab 300) 300 [0])
      \<noteq> energy_difference_from_radiative_state column_externals (column 300 (1 / 100))
          fixed_vmr (slab 300) 300 [0]"
  by (simp add: moist_column_check moist_column_from_radiative_state)

end
